theory Spec2Isabelle
  imports Main "HOL-Library.Sublist"
begin

section \<open>Python values shared by both modules\<close>

text \<open>
  A Python \<open>str\<close> is modelled as a HOL \<open>string\<close>: each \<open>char\<close> stands for one code
  point below 256.  A Python \<open>bytes\<close> object is a list of the same 8-bit characters.
  Exceptions are values of the type \<open>error\<close>; a function that may raise returns
  \<open>error + 'a\<close> with \<open>Inl\<close> for the exception.
\<close>

type_synonym bytes = string

datatype error =
    NotImplementedError
  | UnauthorizedLogin
  | AssertionError
  | KeyError
  | TypeError
  | ValueError

text \<open>
  \<open>str.encode('utf-8')\<close> on code points below 256: one byte below 128, otherwise the
  two-byte form \<open>110xxxxx 10xxxxxx\<close>.
\<close>

definition utf8_char :: "char \<Rightarrow> bytes" where
  "utf8_char c =
     (let n = (of_char c :: nat)
      in if n < 128 then [c]
         else [char_of (192 + n div 64), char_of (128 + n mod 64)])"

definition utf8_encode :: "string \<Rightarrow> bytes" where
  "utf8_encode s = concat (map utf8_char s)"


subsection \<open>Formatting numbers\<close>

text \<open>
  \<open>'%d' % n\<close> and \<open>str(n)\<close> for an integer: the decimal digits, with a minus sign for a
  negative number.  \<open>'%02d'\<close>, \<open>'%04d'\<close> and \<open>'%06d'\<close> pad with zeros on the left up to
  the given width (the sign counts towards the width).
\<close>

definition digit_char :: "nat \<Rightarrow> char" where
  "digit_char d = char_of (48 + d)"

fun str_nat :: "nat \<Rightarrow> string" where
  "str_nat n = (if n < 10 then [digit_char n] else str_nat (n div 10) @ [digit_char (n mod 10)])"

definition str_int :: "int \<Rightarrow> string" where
  "str_int i = (if i < 0 then CHR ''-'' # str_nat (nat (- i)) else str_nat (nat i))"

definition zero_pad :: "nat \<Rightarrow> int \<Rightarrow> string" where
  "zero_pad w i =
     (if i < 0 then CHR ''-'' # replicate (w - 1 - length (str_nat (nat (- i)))) CHR ''0''
                      @ str_nat (nat (- i))
      else replicate (w - length (str_nat (nat i))) CHR ''0'' @ str_nat (nat i))"

text \<open>\<open>sep.join(xs)\<close>.\<close>

fun join :: "string \<Rightarrow> string list \<Rightarrow> string" where
  "join sep [] = []"
| "join sep [x] = x"
| "join sep (x # y # ys) = x @ sep @ join sep (y # ys)"

subsection \<open>Timestamps and durations\<close>

text \<open>
  A naive \<open>datetime\<close> is the number of microseconds since 0001-01-01 00:00:00 (the
  instant of ordinal day 1); its \<open>microsecond\<close> attribute is that number modulo one
  million.  A \<open>timedelta\<close> is its total number of microseconds; Python keeps it
  normalised as days, seconds in \<open>[0, 86400)\<close> and microseconds in \<open>[0, 1000000)\<close>, so
  the \<open>microseconds\<close> attribute is the total modulo one million (rounding the quotient
  down, also for a negative duration).
\<close>

datatype timelike = Datetime int | Timedelta int

definition microsecond :: "int \<Rightarrow> int" where
  "microsecond t = t mod 1000000"

definition microseconds :: "int \<Rightarrow> int" where
  "microseconds d = d mod 1000000"

definition td_seconds :: "int \<Rightarrow> int" where
  "td_seconds d = (d mod 86400000000) div 1000000"

definition td_days :: "int \<Rightarrow> int" where
  "td_days d = d div 86400000000"

text \<open>\<open>str(timedelta)\<close>, as the standard library formats it.\<close>

definition str_timedelta :: "int \<Rightarrow> string" where
  "str_timedelta d =
     (let mm = td_seconds d div 60; ss = td_seconds d mod 60;
          hh = mm div 60; mm = mm mod 60;
          s = str_int hh @ '':'' @ zero_pad 2 mm @ '':'' @ zero_pad 2 ss;
          s = (if td_days d \<noteq> 0
               then str_int (td_days d) @ '' day''
                    @ (if \<bar>td_days d\<bar> \<noteq> 1 then ''s'' else []) @ '', '' @ s
               else s)
      in if microseconds d \<noteq> 0 then s @ ''.'' @ zero_pad 6 (microseconds d) else s)"

text \<open>
  The proleptic Gregorian calendar of the standard library: the year, month and day of
  an ordinal day number (day 1 is 0001-01-01).
\<close>

definition days_before_month :: "int \<Rightarrow> int" where
  "days_before_month m =
     (if m = 1 then 0 else if m = 2 then 31 else if m = 3 then 59 else if m = 4 then 90
      else if m = 5 then 120 else if m = 6 then 151 else if m = 7 then 181
      else if m = 8 then 212 else if m = 9 then 243 else if m = 10 then 273
      else if m = 11 then 304 else 334)"

definition days_in_month :: "int \<Rightarrow> int" where
  "days_in_month m =
     (if m = 2 then 28 else if m = 4 \<or> m = 6 \<or> m = 9 \<or> m = 11 then 30 else 31)"

definition ord2ymd :: "int \<Rightarrow> int \<times> int \<times> int" where
  "ord2ymd ordinal =
     (let n = ordinal - 1;
          n400 = n div 146097; n = n mod 146097;
          n100 = n div 36524; n = n mod 36524;
          n4 = n div 1461; n = n mod 1461;
          n1 = n div 365; n = n mod 365;
          year = n400 * 400 + 1 + n100 * 100 + n4 * 4 + n1
      in if n1 = 4 \<or> n100 = 4 then (year - 1, 12, 31)
         else
           let leapyear = (n1 = 3 \<and> (n4 \<noteq> 24 \<or> n100 = 3));
               month = (n + 50) div 32;
               preceding = days_before_month month + (if month > 2 \<and> leapyear then 1 else 0)
           in if preceding > n
              then let month = month - 1;
                       preceding = preceding
                         - (days_in_month month + (if month = 2 \<and> leapyear then 1 else 0))
                   in (year, month, n - preceding + 1)
              else (year, month, n - preceding + 1))"

text \<open>\<open>str(datetime)\<close>, that is \<open>isoformat(sep=' ')\<close>.\<close>

definition str_datetime :: "int \<Rightarrow> string" where
  "str_datetime t =
     (let days = t div 86400000000; secs = (t mod 86400000000) div 1000000;
          (y, m, d) = ord2ymd (days + 1);
          s = zero_pad 4 y @ ''-'' @ zero_pad 2 m @ ''-'' @ zero_pad 2 d @ '' ''
              @ zero_pad 2 (secs div 3600) @ '':'' @ zero_pad 2 ((secs mod 3600) div 60)
              @ '':'' @ zero_pad 2 (secs mod 60)
      in if microsecond t \<noteq> 0 then s @ ''.'' @ zero_pad 6 (microsecond t) else s)"

subsection \<open>Cell values\<close>

text \<open>
  The values that end up in a table cell: \<open>None\<close>, a string, an integer (the process
  id), a timestamp or a duration.  \<open>str_of\<close> is Python's \<open>str\<close> on them.
\<close>

datatype pyval = PNone | PStr string | PInt int | PTime timelike

fun str_of :: "pyval \<Rightarrow> string" where
  "str_of PNone = ''None''"
| "str_of (PStr s) = s"
| "str_of (PInt i) = str_int i"
| "str_of (PTime (Datetime t)) = str_datetime t"
| "str_of (PTime (Timedelta d)) = str_timedelta d"


section \<open>basicauth.py\<close>

subsection \<open>PublicHTMLRealm\<close>

text \<open>
  The interfaces a caller may ask the realm for: \<open>IResource\<close>, or any other interface,
  identified by its name.
\<close>

datatype interface = IResource | Interface string

record 'r PublicHTMLRealm =
  resource :: 'r

text \<open>The third component of the avatar triple is the logout callable \<open>lambda: None\<close>.\<close>

definition logout :: "unit \<Rightarrow> unit" where
  "logout = (\<lambda>_. ())"

definition requestAvatar ::
  "'r PublicHTMLRealm \<Rightarrow> bytes \<Rightarrow> 'm \<Rightarrow> interface list
     \<Rightarrow> error + (interface \<times> 'r \<times> (unit \<Rightarrow> unit))" where
  "requestAvatar self avatarId mind interfaces =
     (if IResource \<in> set interfaces then Inr (IResource, resource self, logout)
      else Inl NotImplementedError)"

subsection \<open>StringCredentialsChecker\<close>

record credentials =
  username :: bytes
  password :: bytes

record StringCredentialsChecker =
  self_username :: bytes
  self_password :: bytes

text \<open>The constructor stores the UTF-8 encoding of the configured pair.\<close>

definition StringCredentialsChecker_init :: "string \<Rightarrow> string \<Rightarrow> StringCredentialsChecker" where
  "StringCredentialsChecker_init u p =
     \<lparr>self_username = utf8_encode u, self_password = utf8_encode p\<rparr>"

text \<open>
  \<open>requestAvatarId\<close> returns a Deferred that has already fired: \<open>defer.succeed v\<close> is
  \<open>Inr v\<close> and \<open>defer.fail e\<close> is \<open>Inl e\<close>.  The four \<open>print\<close> calls in front of the
  comparison write to standard output and take no part in the result.
\<close>

definition requestAvatarId :: "StringCredentialsChecker \<Rightarrow> credentials \<Rightarrow> error + bytes" where
  "requestAvatarId self creds =
     (if username creds = self_username self \<and> password creds = self_password self
      then Inr (username creds)
      else Inl UnauthorizedLogin)"


section \<open>website.py\<close>

subsection \<open>Errors in sequence\<close>

text \<open>
  The first exception raised ends the computation: \<open>bind_err\<close> runs the continuation on a
  result, \<open>map_err\<close> is a generator expression whose element may raise.
\<close>

definition bind_err :: "error + 'a \<Rightarrow> ('a \<Rightarrow> error + 'b) \<Rightarrow> error + 'b" where
  "bind_err r f = (case r of Inl e \<Rightarrow> Inl e | Inr v \<Rightarrow> f v)"

fun map_err :: "('a \<Rightarrow> error + 'b) \<Rightarrow> 'a list \<Rightarrow> error + 'b list" where
  "map_err f [] = Inr []"
| "map_err f (x # xs) =
     bind_err (f x) (\<lambda>y. bind_err (map_err f xs) (\<lambda>ys. Inr (y # ys)))"

text \<open>\<open>xs.index(x)\<close>: the first position of \<open>x\<close>, or \<open>ValueError\<close>.\<close>

fun list_index :: "'a list \<Rightarrow> 'a \<Rightarrow> error + nat" where
  "list_index [] x = Inl ValueError"
| "list_index (y # ys) x =
     (if y = x then Inr 0 else bind_err (list_index ys x) (\<lambda>i. Inr (Suc i)))"

text \<open>\<open>d[k]\<close> on a dict: the value, or \<open>KeyError\<close>.\<close>

definition getitem :: "('k \<rightharpoonup> 'v) \<Rightarrow> 'k \<Rightarrow> error + 'v" where
  "getitem d k = (case d k of None \<Rightarrow> Inl KeyError | Some v \<Rightarrow> Inr v)"

subsection \<open>The collaborators of the Jobs resource\<close>

text \<open>
  A process record of the launcher (\<open>pid\<close> and \<open>end_time\<close> are \<open>None\<close> until they are
  set), a message of a spider queue (a dict), the poller with its queues in the order
  \<open>queues.items()\<close> yields them, each with the list \<open>queue.list()\<close> returns, and the
  launcher with its dict of running processes by slot (\<open>processes.values()\<close> is the
  list of the second components) and its list of finished ones.
\<close>

record process =
  project :: string
  spider :: string
  job :: string
  pid :: "int option"
  start_time :: int
  end_time :: "int option"

type_synonym message = "string \<rightharpoonup> string"

record Poller =
  queues :: "(string \<times> message list) list"

record Launcher =
  processes :: "(nat \<times> process) list"
  finished :: "process list"

record 'r Root =
  logsdir :: string
  prefix_header :: string
  children :: "bytes \<rightharpoonup> 'r"
  poller :: Poller
  launcher :: Launcher

text \<open>
  The Jobs resource: \<open>local_items\<close> is the truth value of the attribute, and
  \<open>base_path\<close> the attribute that \<open>render\<close> assigns before anything reads it.
\<close>

record 'r Jobs =
  root :: "'r Root"
  local_items :: bool
  self_prefix_header :: string
  base_path :: string

text \<open>A request: the headers received, and the response headers set so far.\<close>

record Request =
  received_headers :: "string \<rightharpoonup> string"
  response_headers :: "string \<rightharpoonup> string"

definition getHeader :: "Request \<Rightarrow> string \<Rightarrow> string option" where
  "getHeader txrequest name = received_headers txrequest name"

definition setHeader :: "Request \<Rightarrow> string \<Rightarrow> string \<Rightarrow> Request" where
  "setHeader txrequest name v =
     txrequest\<lparr>response_headers := (response_headers txrequest)(name \<mapsto> v)\<rparr>"

text \<open>
  The module \<open>scrapyd.jobstorage\<close> is not among the sources: its two functions
  \<open>job_log_url\<close> and \<open>job_items_url\<close>, applied to a process record, are parameters.
  The clock is a parameter too: \<open>now k\<close> is what the \<open>k\<close>-th call of \<open>datetime.now()\<close>
  during one render returns.
\<close>

record jobstorage =
  job_log_url :: "process \<Rightarrow> string"
  job_items_url :: "process \<Rightarrow> string"

subsection \<open>PrefixHeaderMixin\<close>

definition get_base_path :: "'r Jobs \<Rightarrow> Request \<Rightarrow> string" where
  "get_base_path self txrequest =
     (case getHeader txrequest (self_prefix_header self) of
        None \<Rightarrow> []
      | Some v \<Rightarrow> if v = [] then [] else v)"

subsection \<open>microsec_trunc\<close>

text \<open>
  A datetime has the attribute \<open>microsecond\<close>, a timedelta has \<open>microseconds\<close>; the
  function subtracts \<open>timedelta(microseconds=ms)\<close> from its argument, which keeps the
  kind of the argument.
\<close>

fun microsec_trunc :: "timelike \<Rightarrow> timelike" where
  "microsec_trunc (Datetime t) = Datetime (t - microsecond t)"
| "microsec_trunc (Timedelta d) = Timedelta (d - microseconds d)"

subsection \<open>Jobs\<close>

definition cancel_button :: "string \<Rightarrow> string \<Rightarrow> string \<Rightarrow> string" where
  \<open>cancel_button project' jobid base_path' =
     ''\<newline>    <form method="post" action="'' @ base_path' @ ''/cancel.json">''
     @ ''\<newline>    <input type="hidden" name="project" value="'' @ project' @ ''"/>''
     @ ''\<newline>    <input type="hidden" name="job" value="'' @ jobid @ ''"/>''
     @ ''\<newline>    <input type="submit" style="float: left;" value="Cancel"/>''
     @ ''\<newline>    </form>\<newline>    ''\<close>

definition header_cols :: "string list" where
  "header_cols =
     [''Project'', ''Spider'',
      ''Job'', ''PID'',
      ''Start'', ''Runtime'', ''Finish'',
      ''Log'', ''Items'',
      ''Cancel'']"

definition hide_rule :: "nat \<Rightarrow> string" where
  "hide_rule col_idx =
     ''#jobs>*>tr>*:nth-child('' @ str_int (int col_idx) @ '') {display: none}''"

definition gen_css :: "'r Jobs \<Rightarrow> error + string" where
  "gen_css self =
     (let css = [''#jobs>thead td {text-align: center; font-weight: bold}'',
                 ''#jobs>tbody>tr:first-child {background-color: #eee}'']
      in bind_err
           (if \<not> local_items self
            then bind_err (list_index header_cols ''Items'')
                   (\<lambda>i. Inr (css @ [hide_rule (i + 1)]))
            else Inr css)
           (\<lambda>css. bind_err
              (if ''cancel.json'' \<notin> dom (children (root self))
               then bind_err (list_index header_cols ''Cancel'')
                      (\<lambda>i. Inr (css @ [hide_rule (i + 1)]))
               else Inr css)
              (\<lambda>css. Inr (join ''\<newline>'' css))))"

text \<open>
  \<open>prep_row\<close> takes a list of cells or a dict (here an association list, in the order
  of the dict display); \<open>cells.get(k)\<close> is \<open>None\<close> for a key that is not there.
\<close>

type_synonym dict = "(string \<times> pyval) list"

datatype cells = Cells_list "pyval list" | Cells_dict dict

definition dict_get :: "dict \<Rightarrow> string \<Rightarrow> pyval" where
  "dict_get d k = (case map_of d k of None \<Rightarrow> PNone | Some v \<Rightarrow> v)"

definition td :: "pyval \<Rightarrow> string" where
  "td c = ''<td>'' @ (if c = PNone then [] else str_of c) @ ''</td>''"

definition prep_row :: "cells \<Rightarrow> error + string" where
  "prep_row cells =
     bind_err
       (case cells of
          Cells_list cs \<Rightarrow>
            if length cs = length header_cols then Inr cs else Inl AssertionError
        | Cells_dict d \<Rightarrow> Inr (map (dict_get d) header_cols))
       (\<lambda>cs. Inr (''<tr>'' @ concat (map td cs) @ ''</tr>''))"

text \<open>The dict displays of the three kinds of row.\<close>

definition pending_cells :: "'r Jobs \<Rightarrow> string \<Rightarrow> message \<Rightarrow> error + dict" where
  "pending_cells self project' m =
     bind_err (getitem m ''name'') (\<lambda>name.
     bind_err (getitem m ''_job'') (\<lambda>jobid.
       Inr [(''Project'', PStr project'),
            (''Spider'', PStr name),
            (''Job'', PStr jobid),
            (''Cancel'', PStr (cancel_button project' jobid (base_path self)))]))"

definition opt_int :: "int option \<Rightarrow> pyval" where
  "opt_int v = (case v of None \<Rightarrow> PNone | Some i \<Rightarrow> PInt i)"

definition running_cells :: "jobstorage \<Rightarrow> 'r Jobs \<Rightarrow> int \<Rightarrow> process \<Rightarrow> dict" where
  \<open>running_cells js self now_t p =
     [(''Project'', PStr (project p)),
      (''Spider'', PStr (spider p)),
      (''Job'', PStr (job p)),
      (''PID'', opt_int (pid p)),
      (''Start'', PTime (microsec_trunc (Datetime (start_time p)))),
      (''Runtime'', PTime (microsec_trunc (Timedelta (now_t - start_time p)))),
      (''Log'', PStr (''<a href="/'' @ logsdir (root self) @ base_path self
                      @ job_log_url js p @ ''">Log</a>'')),
      (''Items'', PStr (''<a href="'' @ base_path self @ job_items_url js p
                        @ ''">Items</a>'')),
      (''Cancel'', PStr (cancel_button (project p) (job p) (base_path self)))]\<close>

definition finished_cells :: "jobstorage \<Rightarrow> 'r Jobs \<Rightarrow> process \<Rightarrow> error + dict" where
  \<open>finished_cells js self p =
     (case end_time p of
        None \<Rightarrow> Inl TypeError
      | Some e \<Rightarrow>
          Inr [(''Project'', PStr (project p)),
               (''Spider'', PStr (spider p)),
               (''Job'', PStr (job p)),
               (''Start'', PTime (microsec_trunc (Datetime (start_time p)))),
               (''Runtime'', PTime (microsec_trunc (Timedelta (e - start_time p)))),
               (''Finish'', PTime (microsec_trunc (Datetime e))),
               (''Log'', PStr (''<a href="/'' @ logsdir (root self) @ base_path self
                               @ job_log_url js p @ ''">Log</a>'')),
               (''Items'', PStr (''<a href="'' @ base_path self @ job_items_url js p
                                 @ ''">Items</a>''))])\<close>

text \<open>The three table bodies: one row per job, joined by newlines.\<close>

definition pending_jobs :: "'r Jobs \<Rightarrow> (string \<times> message) list" where
  "pending_jobs self =
     concat (map (\<lambda>(project', queue). map (\<lambda>m. (project', m)) queue)
                 (queues (poller (root self))))"

definition prep_tab_pending :: "'r Jobs \<Rightarrow> error + string" where
  "prep_tab_pending self =
     bind_err
       (map_err (\<lambda>(project', m).
                   bind_err (pending_cells self project' m) (\<lambda>d. prep_row (Cells_dict d)))
                (pending_jobs self))
       (\<lambda>rows. Inr (join ''\<newline>'' rows))"

definition prep_tab_running :: "jobstorage \<Rightarrow> 'r Jobs \<Rightarrow> (nat \<Rightarrow> int) \<Rightarrow> error + string" where
  "prep_tab_running js self now =
     bind_err
       (map_err (\<lambda>(k, p). prep_row (Cells_dict (running_cells js self (now k) p)))
                (enumerate 0 (map snd (processes (launcher (root self))))))
       (\<lambda>rows. Inr (join ''\<newline>'' rows))"

definition prep_tab_finished :: "jobstorage \<Rightarrow> 'r Jobs \<Rightarrow> error + string" where
  "prep_tab_finished js self =
     bind_err
       (map_err (\<lambda>p. bind_err (finished_cells js self p) (\<lambda>d. prep_row (Cells_dict d)))
                (finished (launcher (root self))))
       (\<lambda>rows. Inr (join ''\<newline>'' rows))"

definition section_header :: "string \<Rightarrow> string" where
  \<open>section_header label =
     ''<tr><th colspan="'' @ str_int (int (length header_cols)) @ ''">'' @ label
     @ ''</th></tr>''\<close>

definition prep_table :: "jobstorage \<Rightarrow> 'r Jobs \<Rightarrow> (nat \<Rightarrow> int) \<Rightarrow> error + string" where
  \<open>prep_table js self now =
     bind_err (prep_row (Cells_list (map PStr header_cols))) (\<lambda>head.
     bind_err (prep_tab_pending self) (\<lambda>pending.
     bind_err (prep_tab_running js self now) (\<lambda>running.
     bind_err (prep_tab_finished js self) (\<lambda>finished'.
       Inr (''<table id="jobs" border="1">''
            @ ''<thead>'' @ head @ ''</thead>''
            @ ''<tbody>''
            @ section_header ''Pending''
            @ pending
            @ ''</tbody>''
            @ ''<tbody>''
            @ section_header ''Running''
            @ running
            @ ''</tbody>''
            @ ''<tbody>''
            @ section_header ''Finished''
            @ finished'
            @ ''</tbody>''
            @ ''</table>'')))))\<close>

definition prep_doc :: "jobstorage \<Rightarrow> 'r Jobs \<Rightarrow> (nat \<Rightarrow> int) \<Rightarrow> error + string" where
  \<open>prep_doc js self now =
     bind_err (gen_css self) (\<lambda>css.
     bind_err (prep_table js self now) (\<lambda>table.
       Inr (''<html>''
            @ ''<head>''
            @ ''<title>Scrapyd</title>''
            @ ''<style type="text/css">'' @ css @ ''</style>''
            @ ''</head>''
            @ ''<body><h1>Jobs</h1>''
            @ ''<p><a href="./">Go up</a></p>''
            @ table
            @ ''</body>''
            @ ''</html>'')))\<close>

text \<open>
  \<open>render\<close> assigns \<open>self.base_path\<close>, builds the document, sets two response headers
  and returns the encoded document.  The result is the resource after the call, the
  request after the call and the value returned (or the exception raised, in which case
  no header has been set).
\<close>

definition render ::
  "jobstorage \<Rightarrow> 'r Jobs \<Rightarrow> Request \<Rightarrow> (nat \<Rightarrow> int) \<Rightarrow> 'r Jobs \<times> Request \<times> (error + bytes)" where
  "render js self txrequest now =
     (let self = self\<lparr>base_path := get_base_path self txrequest\<rparr>
      in case prep_doc js self now of
           Inl e \<Rightarrow> (self, txrequest, Inl e)
         | Inr doc \<Rightarrow>
             let txrequest = setHeader txrequest ''Content-Type'' ''text/html; charset=utf-8'';
                 doc = utf8_encode doc;
                 txrequest = setHeader txrequest ''Content-Length'' (str_int (int (length doc)))
             in (self, txrequest, Inr doc))"


section \<open>Notions of the specification\<close>

text \<open>
  Python's \<open>\<le>\<close> on two timestamps or on two durations, and the sub-second part of a
  value (its \<open>microsecond\<close> or \<open>microseconds\<close> attribute).
\<close>

fun le_timelike :: "timelike \<Rightarrow> timelike \<Rightarrow> bool" where
  "le_timelike (Datetime a) (Datetime b) = (a \<le> b)"
| "le_timelike (Timedelta a) (Timedelta b) = (a \<le> b)"
| "le_timelike _ _ = False"

fun sub_second :: "timelike \<Rightarrow> int" where
  "sub_second (Datetime t) = microsecond t"
| "sub_second (Timedelta d) = microseconds d"

text \<open>
  The style sheet as the specification describes it: two fixed rules, then a rule that
  hides column 9 (Items) unless items are browsable, then one that hides column 10
  (Cancel) unless cancellation is available.
\<close>

definition css_rules :: "bool \<Rightarrow> bool \<Rightarrow> string list" where
  "css_rules items_browsable cancel_available =
     [''#jobs>thead td {text-align: center; font-weight: bold}'',
      ''#jobs>tbody>tr:first-child {background-color: #eee}'']
     @ (if items_browsable then [] else [hide_rule 9])
     @ (if cancel_available then [] else [hide_rule 10])"

text \<open>
  A section of the table as the specification describes it: a header row with one cell
  that spans \<open>ncols\<close> columns and carries the label, then the rows of the section.
\<close>

definition spec_section :: "nat \<Rightarrow> string \<Rightarrow> string \<Rightarrow> string" where
  \<open>spec_section ncols label rows =
     ''<tbody>'' @ ''<tr><th colspan="'' @ str_nat ncols @ ''">'' @ label @ ''</th></tr>''
     @ rows @ ''</tbody>''\<close>

text \<open>A row of the table: one \<open>td\<close> element for each cell value.\<close>

definition tr :: "pyval list \<Rightarrow> string" where
  "tr cs = ''<tr>'' @ concat (map td cs) @ ''</tr>''"

text \<open>A link as it stands in a cell: the target and the text shown.\<close>

definition link :: "string \<Rightarrow> string \<Rightarrow> string" where
  \<open>link target txt = ''<a href="'' @ target @ ''">'' @ txt @ ''</a>''\<close>

text \<open>
  Cell values go into the markup as they are (\<open>'<td>%s</td>' % c\<close>, no escaping), so what
  a reader of the document sees as elements is counted on the text: \<open>count_sub t s\<close> is
  the number of positions of \<open>s\<close> at which \<open>t\<close> starts.  A text is free of markup when it
  has no \<open><\<close> in it.
\<close>

fun count_sub :: "string \<Rightarrow> string \<Rightarrow> nat" where
  "count_sub t [] = 0"
| "count_sub t (c # cs) = (if prefix t (c # cs) then 1 else 0) + count_sub t cs"

definition count_in :: "string \<Rightarrow> error + string \<Rightarrow> error + nat" where
  "count_in t r = (case r of Inl e \<Rightarrow> Inl e | Inr s \<Rightarrow> Inr (count_sub t s))"

definition markup_free :: "string \<Rightarrow> bool" where
  "markup_free s = (CHR ''<'' \<notin> set s)"

text \<open>
  The texts that enter a row: of a queued message its project, \<open>name\<close> and \<open>_job\<close> (which
  have to be there), of a process record its project, spider, job and the two locations
  derived from it.  The inputs of a render are plain when all these texts, the base path
  and the logs directory are free of markup and every finished record has its
  \<open>end_time\<close>.
\<close>

definition message_plain :: "string \<Rightarrow> message \<Rightarrow> bool" where
  "message_plain project' m =
     (markup_free project'
      \<and> (case m ''name'' of None \<Rightarrow> False | Some n \<Rightarrow> markup_free n)
      \<and> (case m ''_job'' of None \<Rightarrow> False | Some j \<Rightarrow> markup_free j))"

definition process_plain :: "jobstorage \<Rightarrow> process \<Rightarrow> bool" where
  "process_plain js p =
     (markup_free (project p) \<and> markup_free (spider p) \<and> markup_free (job p)
      \<and> markup_free (job_log_url js p) \<and> markup_free (job_items_url js p))"

definition inputs_plain :: "jobstorage \<Rightarrow> 'r Jobs \<Rightarrow> bool" where
  "inputs_plain js self =
     (markup_free (base_path self) \<and> markup_free (logsdir (root self))
      \<and> list_all (\<lambda>x. message_plain (fst x) (snd x)) (pending_jobs self)
      \<and> list_all (\<lambda>x. process_plain js (snd x)) (processes (launcher (root self)))
      \<and> list_all (\<lambda>p. process_plain js p \<and> end_time p \<noteq> None)
            (finished (launcher (root self))))"

text \<open>The number of job rows of a table: queued, running and finished jobs.\<close>

definition job_rows :: "'r Jobs \<Rightarrow> nat" where
  "job_rows self =
     length (pending_jobs self) + length (processes (launcher (root self)))
     + length (finished (launcher (root self)))"

subsection \<open>Example inputs\<close>

text \<open>
  A deployment with one queued, one running and one finished job, neither item browsing
  nor cancellation, behind a proxy that forwards the prefix \<open>/scrapyd\<close>.  The running job
  started at second 63800000000 of the calendar; the finished one ran for 90.7 seconds.
\<close>

definition example_js :: jobstorage where
  "example_js =
     \<lparr>job_log_url = (\<lambda>p. ''/'' @ project p @ ''/'' @ spider p @ ''/'' @ job p @ ''.log''),
      job_items_url = (\<lambda>p. ''/items/'' @ project p @ ''/'' @ spider p @ ''/'' @ job p @ ''.jl'')\<rparr>"

definition example_message :: message where
  "example_message = [''name'' \<mapsto> ''quotes'', ''_job'' \<mapsto> ''abc123'']"

definition example_running :: process where
  "example_running =
     \<lparr>project = ''default'', spider = ''quotes'', job = ''j1'', pid = Some 4242,
      start_time = 63800000000000000, end_time = None\<rparr>"

definition example_finished :: process where
  "example_finished =
     \<lparr>project = ''default'', spider = ''quotes'', job = ''j0'', pid = Some 4141,
      start_time = 63800000000000000, end_time = Some 63800000090700000\<rparr>"

definition example_root :: "unit Root" where
  "example_root =
     \<lparr>logsdir = ''logs'', prefix_header = ''x-forwarded-prefix'', children = Map.empty,
      poller = \<lparr>queues = [(''default'', [example_message])]\<rparr>,
      launcher = \<lparr>processes = [(0, example_running)], finished = [example_finished]\<rparr>\<rparr>"

definition example_jobs :: "unit Jobs" where
  "example_jobs =
     \<lparr>root = example_root, local_items = False,
      self_prefix_header = ''x-forwarded-prefix'', base_path = ''/scrapyd''\<rparr>"

text \<open>A clock that reads \<open>t\<close> at every call.\<close>

definition clock_at :: "int \<Rightarrow> nat \<Rightarrow> int" where
  "clock_at t = (\<lambda>k. t)"

definition example_request :: Request where
  "example_request =
     \<lparr>received_headers = [''x-forwarded-prefix'' \<mapsto> ''/scrapyd''],
      response_headers = Map.empty\<rparr>"


text \<open>
  Deployments whose job data carry markup: a queued message whose spider name closes a
  cell and opens another, a queued message whose job id closes the section and opens a
  section of its own, and a finished record whose spider name closes a cell and opens
  another.
\<close>

definition markup_name_jobs :: "unit Jobs" where
  "markup_name_jobs =
     \<lparr>root = \<lparr>logsdir = ''logs'', prefix_header = ''x-forwarded-prefix'',
               children = Map.empty,
               poller = \<lparr>queues = [(''default'',
                          [[''name'' \<mapsto> ''a</td><td>b'', ''_job'' \<mapsto> ''abc123'']])]\<rparr>,
               launcher = \<lparr>processes = [], finished = []\<rparr>\<rparr>,
      local_items = False, self_prefix_header = ''x-forwarded-prefix'', base_path = []\<rparr>"

definition injected_job :: string where
  \<open>injected_job = ''</td></tr></tbody><tbody><tr><th colspan="10">Injected</th></tr><tr><td>''\<close>

definition injected_jobs :: "unit Jobs" where
  "injected_jobs =
     \<lparr>root = \<lparr>logsdir = ''logs'', prefix_header = ''x-forwarded-prefix'',
               children = Map.empty,
               poller = \<lparr>queues = [(''default'',
                          [[''name'' \<mapsto> ''quotes'', ''_job'' \<mapsto> injected_job]])]\<rparr>,
               launcher = \<lparr>processes = [], finished = []\<rparr>\<rparr>,
      local_items = False, self_prefix_header = ''x-forwarded-prefix'', base_path = []\<rparr>"

definition shifted_finished :: process where
  "shifted_finished =
     \<lparr>project = ''default'', spider = ''a</td><td>b'', job = ''j0'', pid = Some 4141,
      start_time = 63800000000000000, end_time = Some 63800000090700000\<rparr>"

definition shifted_jobs :: "unit Jobs" where
  "shifted_jobs =
     \<lparr>root = \<lparr>logsdir = ''logs'', prefix_header = ''x-forwarded-prefix'',
               children = Map.empty,
               poller = \<lparr>queues = []\<rparr>,
               launcher = \<lparr>processes = [], finished = [shifted_finished]\<rparr>\<rparr>,
      local_items = False, self_prefix_header = ''x-forwarded-prefix'', base_path = []\<rparr>"


section \<open>Properties of basicauth.py\<close>

lemma utf8_encode_ascii: "utf8_encode ''scrapy'' = ''scrapy''"
  by (simp add: utf8_encode_def utf8_char_def)

text \<open>
  Claim C1.  For every configured pair and every presented pair, the check succeeds
  exactly when the presented username and the presented password both equal the
  configured ones byte for byte; the identity returned is then the presented username,
  and in every other case the result is the Unauthorized failure.
\<close>

theorem requestAvatarId_iff:
  "(requestAvatarId self creds = Inr (username creds)
      \<longleftrightarrow> (username creds = self_username self \<and> password creds = self_password self))
   \<and> (requestAvatarId self creds = Inr (username creds)
        \<or> requestAvatarId self creds = Inl UnauthorizedLogin)
   \<and> (\<forall>v. requestAvatarId self creds = Inr v \<longrightarrow> v = username creds)"
  by (simp add: requestAvatarId_def)

theorem requestAvatarId_iff_witness:
  "requestAvatarId (StringCredentialsChecker_init ''scrapy'' ''scrapy'')
       \<lparr>username = ''scrapy'', password = ''scrapy''\<rparr> = Inr ''scrapy''
   \<and> requestAvatarId (StringCredentialsChecker_init ''scrapy'' ''scrapy'')
       \<lparr>username = ''scrapy'', password = ''wrong''\<rparr> = Inl UnauthorizedLogin"
  using requestAvatarId_iff
    [of "StringCredentialsChecker_init ''scrapy'' ''scrapy''"
        "\<lparr>username = ''scrapy'', password = ''scrapy''\<rparr>"]
    requestAvatarId_iff
    [of "StringCredentialsChecker_init ''scrapy'' ''scrapy''"
        "\<lparr>username = ''scrapy'', password = ''wrong''\<rparr>"]
  by (auto simp add: StringCredentialsChecker_init_def utf8_encode_ascii)

text \<open>
  Claim C8.  Whatever the authenticated identity (and the mind object) is, a request
  that includes the resource-serving interface yields the one protected resource of the
  realm; a request for other capabilities only fails with the unsupported-capability
  error (\<open>NotImplementedError\<close>).
\<close>

theorem requestAvatar_single_resource:
  "(IResource \<in> set interfaces \<longrightarrow>
      requestAvatar self avatarId mind interfaces = Inr (IResource, resource self, logout))
   \<and> (IResource \<notin> set interfaces \<longrightarrow>
      requestAvatar self avatarId mind interfaces = Inl NotImplementedError)
   \<and> requestAvatar self avatarId mind interfaces
        = requestAvatar self avatarId' mind' interfaces"
  by (simp add: requestAvatar_def)

theorem requestAvatar_single_resource_witness:
  "IResource \<in> set [IResource]
   \<and> requestAvatar \<lparr>resource = ''root''\<rparr> ''alice'' () [IResource]
       = Inr (IResource, ''root'', logout)
   \<and> IResource \<notin> set [Interface ''IMailbox'']
   \<and> requestAvatar \<lparr>resource = ''root''\<rparr> ''alice'' () [Interface ''IMailbox'']
       = Inl NotImplementedError"
  using requestAvatar_single_resource
    [of "[IResource]" "\<lparr>resource = ''root''\<rparr>" "''alice''" "()" "''alice''" "()"]
    requestAvatar_single_resource
    [of "[Interface ''IMailbox'']" "\<lparr>resource = ''root''\<rparr>" "''alice''" "()" "''alice''" "()"]
  by simp


section \<open>Properties of website.py\<close>

subsection \<open>Auxiliary facts\<close>

lemma bind_err_Inr [simp]: "bind_err (Inr v) f = f v"
  by (simp add: bind_err_def)

lemma bind_err_Inl [simp]: "bind_err (Inl e) f = Inl e"
  by (simp add: bind_err_def)

lemma bind_err_eq_Inr: "bind_err r f = Inr y \<longleftrightarrow> (\<exists>v. r = Inr v \<and> f v = Inr y)"
  by (cases r) simp_all

lemma map_err_total: "map_err (\<lambda>x. Inr (f x)) xs = Inr (map f xs)"
  by (induction xs) simp_all

lemma map_err_bind_total:
  "map_err (\<lambda>x. bind_err (f x) (\<lambda>d. Inr (h d))) xs
     = bind_err (map_err f xs) (\<lambda>ds. Inr (map h ds))"
proof (induction xs)
  case Nil
  show ?case by simp
next
  case (Cons x xs)
  show ?case
  proof (cases "f x")
    case (Inl e)
    then show ?thesis by simp
  next
    case (Inr d)
    then show ?thesis
      using Cons.IH by (cases "map_err f xs") simp_all
  qed
qed

lemma map_err_length: "map_err f xs = Inr ys \<Longrightarrow> length ys = length xs"
proof (induction xs arbitrary: ys)
  case Nil
  then show ?case by simp
next
  case (Cons x xs)
  then show ?case by (auto simp: bind_err_eq_Inr)
qed

lemma map_err_succeeds:
  "(\<And>x. x \<in> set xs \<Longrightarrow> \<exists>y. f x = Inr y) \<Longrightarrow> \<exists>ys. map_err f xs = Inr ys"
proof (induction xs)
  case Nil
  show ?case by simp
next
  case (Cons x xs)
  from Cons.prems obtain y where "f x = Inr y" by force
  moreover from Cons obtain ys where "map_err f xs = Inr ys" by force
  ultimately show ?case by simp
qed

lemma map_err_cong_set:
  "(\<And>x. x \<in> set xs \<Longrightarrow> f x = g x) \<Longrightarrow> map_err f xs = map_err g xs"
  by (induction xs) simp_all

lemma header_cols_length: "length header_cols = 10"
  by (simp add: header_cols_def)

lemma list_index_Items: "list_index header_cols ''Items'' = Inr 8"
  by (simp add: header_cols_def)

lemma list_index_Cancel: "list_index header_cols ''Cancel'' = Inr 9"
  by (simp add: header_cols_def)

lemma gen_css_eq:
  "gen_css self =
     Inr (join ''\<newline>''
       (css_rules (local_items self) (''cancel.json'' \<in> dom (children (root self)))))"
  by (simp add: gen_css_def css_rules_def list_index_Items list_index_Cancel Let_def)

lemma css_both_shown:
  "\<not> sublist (hide_rule 9) (join ''\<newline>'' (css_rules True True))
   \<and> \<not> sublist (hide_rule 10) (join ''\<newline>'' (css_rules True True))"
  by code_simp

lemma css_cancel_hidden:
  "\<not> sublist (hide_rule 9) (join ''\<newline>'' (css_rules True False))
   \<and> sublist (hide_rule 10) (join ''\<newline>'' (css_rules True False))"
  by code_simp

lemma css_items_hidden:
  "sublist (hide_rule 9) (join ''\<newline>'' (css_rules False True))
   \<and> \<not> sublist (hide_rule 10) (join ''\<newline>'' (css_rules False True))"
  by code_simp

lemma css_both_hidden:
  "sublist (hide_rule 9) (join ''\<newline>'' (css_rules False False))
   \<and> sublist (hide_rule 10) (join ''\<newline>'' (css_rules False False))"
  by code_simp

lemma css_hidden:
  "(sublist (hide_rule 9) (join ''\<newline>'' (css_rules i c)) \<longleftrightarrow> \<not> i)
   \<and> (sublist (hide_rule 10) (join ''\<newline>'' (css_rules i c)) \<longleftrightarrow> \<not> c)"
  using css_both_shown css_cancel_hidden css_items_hidden css_both_hidden
  by (cases i; cases c) simp_all

lemma header_row:
  "prep_row (Cells_list (map PStr header_cols)) =
     Inr (''<tr><td>Project</td><td>Spider</td><td>Job</td><td>PID</td><td>Start</td>''
          @ ''<td>Runtime</td><td>Finish</td><td>Log</td><td>Items</td><td>Cancel</td></tr>'')"
  by (simp add: prep_row_def header_cols_def td_def)

lemma prep_row_dict:
  "prep_row (Cells_dict d)
     = Inr (''<tr>'' @ concat (map td (map (dict_get d) header_cols)) @ ''</tr>'')"
  by (simp add: prep_row_def)

lemma pending_cells_flags:
  "pending_cells (self\<lparr>local_items := b, root := (root self)\<lparr>children := c\<rparr>\<rparr>)
     = pending_cells self"
  by (simp add: pending_cells_def fun_eq_iff)

lemma running_cells_flags:
  "running_cells js (self\<lparr>local_items := b, root := (root self)\<lparr>children := c\<rparr>\<rparr>)
     = running_cells js self"
  by (simp add: running_cells_def fun_eq_iff)

lemma finished_cells_flags:
  "finished_cells js (self\<lparr>local_items := b, root := (root self)\<lparr>children := c\<rparr>\<rparr>)
     = finished_cells js self"
  by (simp add: finished_cells_def fun_eq_iff split: option.split)

lemma prep_tab_pending_flags:
  "prep_tab_pending (self\<lparr>local_items := b, root := (root self)\<lparr>children := c\<rparr>\<rparr>)
     = prep_tab_pending self"
  unfolding prep_tab_pending_def pending_cells_flags by (simp add: pending_jobs_def)

lemma prep_tab_running_flags:
  "prep_tab_running js (self\<lparr>local_items := b, root := (root self)\<lparr>children := c\<rparr>\<rparr>)
     = prep_tab_running js self"
  unfolding prep_tab_running_def running_cells_flags by simp

lemma prep_tab_finished_flags:
  "prep_tab_finished js (self\<lparr>local_items := b, root := (root self)\<lparr>children := c\<rparr>\<rparr>)
     = prep_tab_finished js self"
  unfolding prep_tab_finished_def finished_cells_flags by simp

lemma prep_table_flags:
  "prep_table js (self\<lparr>local_items := b, root := (root self)\<lparr>children := c\<rparr>\<rparr>) now
     = prep_table js self now"
  unfolding prep_table_def prep_tab_pending_flags prep_tab_running_flags
    prep_tab_finished_flags ..

lemma floor_second: "(d::int) - d mod 1000000 = 1000000 * (d div 1000000)"
  by (simp add: minus_mod_eq_mult_div)

lemma microsec_trunc_Timedelta:
  "microsec_trunc (Timedelta d) = Timedelta (1000000 * (d div 1000000))"
  by (simp add: microseconds_def floor_second)

lemma td_duration: "td (PTime (Timedelta d)) = ''<td>'' @ str_timedelta d @ ''</td>''"
  by (simp add: td_def)

lemma running_Runtime:
  "dict_get (running_cells js self t p) ''Runtime''
     = PTime (Timedelta (1000000 * ((t - start_time p) div 1000000)))"
  unfolding microsec_trunc_Timedelta [symmetric]
  by (simp add: running_cells_def dict_get_def del: microsec_trunc.simps)

lemma finished_Runtime:
  "end_time p = Some e \<Longrightarrow>
     \<exists>d. finished_cells js self p = Inr d
        \<and> dict_get d ''Runtime''
            = PTime (Timedelta (1000000 * ((e - start_time p) div 1000000)))"
  unfolding microsec_trunc_Timedelta [symmetric]
  by (simp add: finished_cells_def dict_get_def del: microsec_trunc.simps)

lemma ninety_seconds: "str_timedelta 90000000 = ''0:01:30''"
  by code_simp

lemma example_flags:
  "local_items example_jobs = False
   \<and> ''cancel.json'' \<notin> dom (children (root example_jobs))"
  by (simp add: example_jobs_def example_root_def)

subsection \<open>Truncation\<close>

text \<open>
  Claim C4.  For every timestamp and every duration, truncating twice is the same as
  truncating once, the truncated value is never greater than the value, and it has no
  sub-second part.  (The function is a function of its argument alone.)
\<close>

theorem microsec_trunc_idempotent_and_below:
  "microsec_trunc (microsec_trunc x) = microsec_trunc x
   \<and> le_timelike (microsec_trunc x) x
   \<and> sub_second (microsec_trunc x) = 0"
  by (cases x) (simp_all add: microsecond_def microseconds_def floor_second)

theorem microsec_trunc_idempotent_and_below_witness:
  "microsec_trunc (Timedelta 90700000) = Timedelta 90000000
   \<and> microsec_trunc (microsec_trunc (Timedelta 90700000)) = Timedelta 90000000
   \<and> le_timelike (Timedelta 90000000) (Timedelta 90700000)"
  using microsec_trunc_idempotent_and_below [of "Timedelta 90700000"]
  by (simp add: microseconds_def)



subsection \<open>Rows\<close>

lemma prep_row_dict_tr: "prep_row (Cells_dict d) = Inr (tr (map (dict_get d) header_cols))"
  by (simp add: prep_row_def tr_def)

lemma prep_row_Inr:
  "prep_row cells = Inr s \<Longrightarrow>
     \<exists>cs. length cs = 10 \<and> s = tr cs
       \<and> cs = (case cells of Cells_list l \<Rightarrow> l | Cells_dict d \<Rightarrow> map (dict_get d) header_cols)"
  by (cases cells) (auto simp: prep_row_def tr_def header_cols_length split: if_splits)

lemma prep_row_list_assert:
  "prep_row (Cells_list l) = Inl AssertionError \<longleftrightarrow> length l \<noteq> 10"
  by (simp add: prep_row_def header_cols_length)

lemma td_None: "td PNone = ''<td></td>''"
  by (simp add: td_def)

lemma prep_tab_pending_eq:
  "prep_tab_pending self =
     bind_err (map_err (\<lambda>x. pending_cells self (fst x) (snd x)) (pending_jobs self))
       (\<lambda>ds. Inr (join ''\<newline>'' (map (\<lambda>d. tr (map (dict_get d) header_cols)) ds)))"
proof -
  have "prep_tab_pending self =
      bind_err
        (map_err (\<lambda>x. bind_err (pending_cells self (fst x) (snd x))
                    (\<lambda>d. Inr (tr (map (dict_get d) header_cols))))
           (pending_jobs self))
        (\<lambda>rows. Inr (join ''\<newline>'' rows))"
    by (simp add: prep_tab_pending_def prep_row_dict_tr split_def)
  also have "\<dots> = bind_err (map_err (\<lambda>x. pending_cells self (fst x) (snd x)) (pending_jobs self))
       (\<lambda>ds. Inr (join ''\<newline>'' (map (\<lambda>d. tr (map (dict_get d) header_cols)) ds)))"
    unfolding map_err_bind_total
    by (cases "map_err (\<lambda>x. pending_cells self (fst x) (snd x)) (pending_jobs self)") simp_all
  finally show ?thesis .
qed

lemma prep_tab_finished_eq:
  "prep_tab_finished js self =
     bind_err (map_err (finished_cells js self) (finished (launcher (root self))))
       (\<lambda>ds. Inr (join ''\<newline>'' (map (\<lambda>d. tr (map (dict_get d) header_cols)) ds)))"
proof -
  have "prep_tab_finished js self =
      bind_err
        (map_err (\<lambda>p. bind_err (finished_cells js self p)
                    (\<lambda>d. Inr (tr (map (dict_get d) header_cols))))
           (finished (launcher (root self))))
        (\<lambda>rows. Inr (join ''\<newline>'' rows))"
    by (simp add: prep_tab_finished_def prep_row_dict_tr)
  also have "\<dots> = bind_err (map_err (finished_cells js self) (finished (launcher (root self))))
       (\<lambda>ds. Inr (join ''\<newline>'' (map (\<lambda>d. tr (map (dict_get d) header_cols)) ds)))"
    unfolding map_err_bind_total
    by (cases "map_err (finished_cells js self) (finished (launcher (root self)))") simp_all
  finally show ?thesis .
qed

lemma prep_tab_running_eq:
  "prep_tab_running js self now =
     Inr (join ''\<newline>''
       (map (\<lambda>x. tr (map (dict_get (running_cells js self (now (fst x)) (snd x))) header_cols))
            (enumerate 0 (map snd (processes (launcher (root self)))))))"
  by (simp add: prep_tab_running_def prep_row_dict_tr split_def map_err_total)

lemma example_pending_row:
  \<open>prep_tab_pending example_jobs =
     Inr (''<tr><td>default</td><td>quotes</td><td>abc123</td><td></td><td></td><td></td>''
          @ ''<td></td><td></td><td></td><td>''
          @ cancel_button ''default'' ''abc123'' ''/scrapyd'' @ ''</td></tr>'')\<close>
  by (simp add: prep_tab_pending_def pending_jobs_def pending_cells_def getitem_def
      example_jobs_def example_root_def example_message_def prep_row_def header_cols_def
      dict_get_def td_def)

subsection \<open>Sections of the table\<close>

lemma str_nat_10: "str_nat 10 = ''10''"
  by code_simp

lemma section_eq:
  "''<tbody>'' @ section_header label @ rows @ ''</tbody>'' = spec_section 10 label rows"
  by (simp add: section_header_def spec_section_def header_cols_length str_int_def)

lemma pending_cells_succeeds:
  "m ''name'' \<noteq> None \<Longrightarrow> m ''_job'' \<noteq> None \<Longrightarrow> \<exists>d. pending_cells self pr m = Inr d"
  by (auto simp: pending_cells_def getitem_def)

lemma finished_cells_succeeds:
  "end_time p \<noteq> None \<Longrightarrow> \<exists>d. finished_cells js self p = Inr d"
  by (auto simp: finished_cells_def)

lemma prep_tab_pending_succeeds:
  assumes "\<forall>x \<in> set (pending_jobs self). snd x ''name'' \<noteq> None \<and> snd x ''_job'' \<noteq> None"
  shows "\<exists>s. prep_tab_pending self = Inr s"
proof -
  have "\<exists>ds. map_err (\<lambda>x. pending_cells self (fst x) (snd x)) (pending_jobs self) = Inr ds"
    using assms by (intro map_err_succeeds pending_cells_succeeds) auto
  then show ?thesis
    unfolding prep_tab_pending_eq by auto
qed

lemma prep_tab_finished_succeeds:
  assumes "\<forall>p \<in> set (finished (launcher (root self))). end_time p \<noteq> None"
  shows "\<exists>s. prep_tab_finished js self = Inr s"
proof -
  have "\<exists>ds. map_err (finished_cells js self) (finished (launcher (root self))) = Inr ds"
    using assms by (intro map_err_succeeds finished_cells_succeeds) auto
  then show ?thesis
    unfolding prep_tab_finished_eq by auto
qed

lemma prep_table_Inr:
  assumes "prep_table js self now = Inr t"
  shows \<open>\<exists>head p r f.
      prep_row (Cells_list (map PStr header_cols)) = Inr head
      \<and> prep_tab_pending self = Inr p
      \<and> prep_tab_running js self now = Inr r
      \<and> prep_tab_finished js self = Inr f
      \<and> t = ''<table id="jobs" border="1">'' @ ''<thead>'' @ head @ ''</thead>''
            @ spec_section 10 ''Pending'' p
            @ spec_section 10 ''Running'' r
            @ spec_section 10 ''Finished'' f
            @ ''</table>''\<close>
proof -
  from assms obtain head p r f where
    parts: "prep_row (Cells_list (map PStr header_cols)) = Inr head"
      "prep_tab_pending self = Inr p"
      "prep_tab_running js self now = Inr r"
      "prep_tab_finished js self = Inr f"
    and t: \<open>t = ''<table id="jobs" border="1">'' @ ''<thead>'' @ head @ ''</thead>''
            @ (''<tbody>'' @ section_header ''Pending'' @ p @ ''</tbody>'')
            @ (''<tbody>'' @ section_header ''Running'' @ r @ ''</tbody>'')
            @ (''<tbody>'' @ section_header ''Finished'' @ f @ ''</tbody>'')
            @ ''</table>''\<close>
    unfolding prep_table_def bind_err_eq_Inr by auto
  from t have \<open>t = ''<table id="jobs" border="1">'' @ ''<thead>'' @ head @ ''</thead>''
            @ spec_section 10 ''Pending'' p
            @ spec_section 10 ''Running'' r
            @ spec_section 10 ''Finished'' f
            @ ''</table>''\<close>
    unfolding section_eq .
  with parts show ?thesis by blast
qed

lemma prep_table_succeeds:
  assumes "\<forall>x \<in> set (pending_jobs self). snd x ''name'' \<noteq> None \<and> snd x ''_job'' \<noteq> None"
    and "\<forall>p \<in> set (finished (launcher (root self))). end_time p \<noteq> None"
  shows "\<exists>t. prep_table js self now = Inr t"
proof -
  from prep_tab_pending_succeeds [OF assms(1)]
  obtain p where p: "prep_tab_pending self = Inr p" by blast
  from prep_tab_finished_succeeds [OF assms(2)]
  obtain f where f: "prep_tab_finished js self = Inr f" by blast
  show ?thesis
    unfolding prep_table_def header_row p f prep_tab_running_eq by simp
qed

lemma example_well_formed:
  "(\<forall>x \<in> set (pending_jobs example_jobs). snd x ''name'' \<noteq> None \<and> snd x ''_job'' \<noteq> None)
   \<and> (\<forall>p \<in> set (finished (launcher (root example_jobs))). end_time p \<noteq> None)"
  by (simp add: pending_jobs_def example_jobs_def example_root_def example_message_def
      example_finished_def)

subsection \<open>Blank and populated cells\<close>

lemma td_cancel_button_not_blank: "td (PStr (cancel_button a b c)) \<noteq> ''<td></td>''"
  by (simp add: td_def cancel_button_def)

lemma pending_cells_Inr:
  "m ''name'' = Some n \<Longrightarrow> m ''_job'' = Some j \<Longrightarrow>
     pending_cells self pr m =
       Inr [(''Project'', PStr pr), (''Spider'', PStr n), (''Job'', PStr j),
            (''Cancel'', PStr (cancel_button pr j (base_path self)))]"
  by (simp add: pending_cells_def getitem_def)

lemma running_blank_and_cancel:
  "dict_get (running_cells js self t p) ''Finish'' = PNone
   \<and> dict_get (running_cells js self t p) ''Cancel''
       = PStr (cancel_button (project p) (job p) (base_path self))"
  by (simp add: running_cells_def dict_get_def)

lemma finished_blank:
  "end_time p = Some e \<Longrightarrow>
     \<exists>d. finished_cells js self p = Inr d
        \<and> dict_get d ''PID'' = PNone \<and> dict_get d ''Cancel'' = PNone"
  by (simp add: finished_cells_def dict_get_def)


subsection \<open>Links\<close>

lemma running_links:
  "dict_get (running_cells js self t p) ''Log''
     = PStr (link (''/'' @ logsdir (root self) @ base_path self @ job_log_url js p) ''Log'')
   \<and> dict_get (running_cells js self t p) ''Items''
     = PStr (link (base_path self @ job_items_url js p) ''Items'')"
  by (simp add: running_cells_def dict_get_def link_def)

lemma finished_links:
  "end_time p = Some e \<Longrightarrow>
     \<exists>d. finished_cells js self p = Inr d
       \<and> dict_get d ''Log''
           = PStr (link (''/'' @ logsdir (root self) @ base_path self @ job_log_url js p) ''Log'')
       \<and> dict_get d ''Items''
           = PStr (link (base_path self @ job_items_url js p) ''Items'')"
  by (simp add: finished_cells_def dict_get_def link_def)

lemma example_log_target:
  "''/'' @ logsdir (root example_jobs) @ base_path example_jobs
     @ job_log_url example_js example_running = ''/logs/scrapyd/default/quotes/j1.log''"
  by (simp add: example_jobs_def example_root_def example_js_def example_running_def)

lemma example_items_target:
  "base_path example_jobs @ job_items_url example_js example_running
     = ''/scrapyd/items/default/quotes/j1.jl''"
  by (simp add: example_jobs_def example_root_def example_js_def example_running_def)

lemma example_finished_log_target:
  "''/'' @ logsdir (root example_jobs) @ base_path example_jobs
     @ job_log_url example_js example_finished = ''/logs/scrapyd/default/quotes/j0.log''"
  by (simp add: example_jobs_def example_root_def example_js_def example_finished_def)

lemma example_finished_items_target:
  "base_path example_jobs @ job_items_url example_js example_finished
     = ''/scrapyd/items/default/quotes/j0.jl''"
  by (simp add: example_jobs_def example_root_def example_js_def example_finished_def)

text \<open>
  Claim C5.  The Items link of a running or finished record is the base path followed by
  \<open>job_items_url\<close> of the record.  The Log link is not built that way: its target is a
  slash and the logs directory, then the base path, then \<open>job_log_url\<close> of the record,
  so under the base path \<open>/scrapyd\<close> with the logs directory \<open>logs\<close> the target starts
  with \<open>/logs/scrapyd\<close> and does not start with the base path.
\<close>

theorem log_link_target_at_example:
  "dict_get (running_cells js self t p) ''Log''
     = PStr (link (''/'' @ logsdir (root self) @ base_path self @ job_log_url js p) ''Log'')
   \<and> dict_get (running_cells js self t p) ''Items''
     = PStr (link (base_path self @ job_items_url js p) ''Items'')
   \<and> dict_get (running_cells example_js example_jobs t example_running) ''Log''
     = PStr (link ''/logs/scrapyd/default/quotes/j1.log'' ''Log'')
   \<and> dict_get (running_cells example_js example_jobs t example_running) ''Items''
     = PStr (link ''/scrapyd/items/default/quotes/j1.jl'' ''Items'')
   \<and> (\<exists>d. finished_cells example_js example_jobs example_finished = Inr d
         \<and> dict_get d ''Log'' = PStr (link ''/logs/scrapyd/default/quotes/j0.log'' ''Log'')
         \<and> dict_get d ''Items'' = PStr (link ''/scrapyd/items/default/quotes/j0.jl'' ''Items''))
   \<and> base_path example_jobs = ''/scrapyd''
   \<and> \<not> prefix (base_path example_jobs) ''/logs/scrapyd/default/quotes/j1.log''
   \<and> \<not> prefix (base_path example_jobs) ''/logs/scrapyd/default/quotes/j0.log''
   \<and> prefix (base_path example_jobs) ''/scrapyd/items/default/quotes/j1.jl''"
proof -
  have b: "base_path example_jobs = ''/scrapyd''"
    by (simp add: example_jobs_def)
  have e: "end_time example_finished = Some 63800000090700000"
    by (simp add: example_finished_def)
  note general = running_links [of js self t p]
  note at_example = running_links [of example_js example_jobs t example_running,
      unfolded example_log_target example_items_target]
  note at_finished = finished_links [OF e, of example_js example_jobs,
      unfolded example_finished_log_target example_finished_items_target]
  have no: "\<not> prefix (base_path example_jobs) ''/logs/scrapyd/default/quotes/j1.log''"
    unfolding b by simp
  have no': "\<not> prefix (base_path example_jobs) ''/logs/scrapyd/default/quotes/j0.log''"
    unfolding b by simp
  have yes: "prefix (base_path example_jobs) ''/scrapyd/items/default/quotes/j1.jl''"
    unfolding b by simp
  show ?thesis
    by (intro conjI general [THEN conjunct1] general [THEN conjunct2]
        at_example [THEN conjunct1] at_example [THEN conjunct2] at_finished b no no' yes)
qed

subsection \<open>What a render depends on and what it changes\<close>

lemma prep_tab_running_clock:
  assumes "\<forall>k < length (processes (launcher (root self))). now k = now' k"
  shows "prep_tab_running js self now = prep_tab_running js self now'"
proof -
  have "map_err (\<lambda>(k, p). prep_row (Cells_dict (running_cells js self (now k) p)))
          (enumerate 0 (map snd (processes (launcher (root self)))))
      = map_err (\<lambda>(k, p). prep_row (Cells_dict (running_cells js self (now' k) p)))
          (enumerate 0 (map snd (processes (launcher (root self)))))"
  proof (rule map_err_cong_set)
    fix x
    assume "x \<in> set (enumerate 0 (map snd (processes (launcher (root self)))))"
    then have "fst x < length (processes (launcher (root self)))"
      by (auto simp: in_set_enumerate_eq)
    with assms have "now (fst x) = now' (fst x)"
      by blast
    then show "(case x of (k, p) \<Rightarrow> prep_row (Cells_dict (running_cells js self (now k) p)))
        = (case x of (k, p) \<Rightarrow> prep_row (Cells_dict (running_cells js self (now' k) p)))"
      by (simp add: split_def)
  qed
  then show ?thesis
    by (simp only: prep_tab_running_def)
qed

lemma render_clock:
  assumes "\<forall>k < length (processes (launcher (root self))). now k = now' k"
  shows "render js self txrequest now = render js self txrequest now'"
proof -
  let ?self = "self\<lparr>base_path := get_base_path self txrequest\<rparr>"
  from assms have "\<forall>k < length (processes (launcher (root ?self))). now k = now' k"
    by simp
  then have "prep_tab_running js ?self now = prep_tab_running js ?self now'"
    by (rule prep_tab_running_clock)
  then have "prep_doc js ?self now = prep_doc js ?self now'"
    by (simp only: prep_doc_def prep_table_def)
  then show ?thesis
    by (simp only: render_def Let_def)
qed

lemma render_old_base_path:
  "render js (self\<lparr>base_path := b\<rparr>) txrequest now = render js self txrequest now"
  by (simp add: render_def get_base_path_def)

lemma render_self:
  "fst (render js self txrequest now) = self\<lparr>base_path := get_base_path self txrequest\<rparr>"
  by (simp add: render_def Let_def split: sum.split)

lemma render_received_headers:
  "received_headers (fst (snd (render js self txrequest now))) = received_headers txrequest"
  by (simp add: render_def Let_def setHeader_def split: sum.split)

lemma render_response_headers:
  "h \<noteq> ''Content-Type'' \<Longrightarrow> h \<noteq> ''Content-Length'' \<Longrightarrow>
     response_headers (fst (snd (render js self txrequest now))) h = response_headers txrequest h"
  by (simp add: render_def Let_def setHeader_def split: sum.split)

lemma utf8_encode_append: "utf8_encode (a @ b) = utf8_encode a @ utf8_encode b"
  by (simp add: utf8_encode_def)

lemma render_doc:
  "snd (snd (render js self txrequest now))
     = (case prep_doc js (self\<lparr>base_path := get_base_path self txrequest\<rparr>) now of
          Inl e \<Rightarrow> Inl e
        | Inr doc \<Rightarrow> Inr (utf8_encode doc))"
  by (simp add: render_def Let_def split: sum.split)

lemma prep_doc_shape:
  assumes "prep_tab_pending self = Inr p" and "prep_tab_finished js self = Inr f"
  shows "\<exists>X Y. \<forall>now r. prep_tab_running js self now = Inr r
            \<longrightarrow> prep_doc js self now = Inr (X @ r @ Y)"
proof -
  obtain css where css: "gen_css self = Inr css"
    using gen_css_eq by blast
  obtain head where head: "prep_row (Cells_list (map PStr header_cols)) = Inr head"
    using header_row by blast
  define X where \<open>X = ''<html>'' @ ''<head>'' @ ''<title>Scrapyd</title>''
      @ ''<style type="text/css">'' @ css @ ''</style>'' @ ''</head>''
      @ ''<body><h1>Jobs</h1>'' @ ''<p><a href="./">Go up</a></p>''
      @ ''<table id="jobs" border="1">'' @ ''<thead>'' @ head @ ''</thead>''
      @ ''<tbody>'' @ section_header ''Pending'' @ p @ ''</tbody>''
      @ ''<tbody>'' @ section_header ''Running''\<close>
  define Y where \<open>Y = ''</tbody>'' @ ''<tbody>'' @ section_header ''Finished'' @ f
      @ ''</tbody>'' @ ''</table>'' @ ''</body>'' @ ''</html>''\<close>
  have "prep_doc js self now = Inr (X @ r @ Y)"
    if "prep_tab_running js self now = Inr r" for now r
    unfolding prep_doc_def prep_table_def css head assms that X_def Y_def by simp
  then show ?thesis by blast
qed

lemma td_PTime: "td (PTime x) = ''<td>'' @ str_of (PTime x) @ ''</td>''"
  by (simp add: td_def)

lemma running_row_shape:
  "\<exists>A B. \<forall>t. tr (map (dict_get (running_cells js self t p)) header_cols)
       = A @ str_timedelta (1000000 * ((t - start_time p) div 1000000)) @ B"
proof -
  define A where "A = ''<tr>'' @ td (PStr (project p)) @ td (PStr (spider p))
      @ td (PStr (job p)) @ td (opt_int (pid p))
      @ td (PTime (microsec_trunc (Datetime (start_time p)))) @ ''<td>''"
  define B where "B = ''</td>'' @ td PNone
      @ td (dict_get (running_cells js self 0 p) ''Log'')
      @ td (dict_get (running_cells js self 0 p) ''Items'')
      @ td (dict_get (running_cells js self 0 p) ''Cancel'') @ ''</tr>''"
  have "tr (map (dict_get (running_cells js self t p)) header_cols)
       = A @ str_timedelta (1000000 * ((t - start_time p) div 1000000)) @ B" for t
    unfolding A_def B_def tr_def header_cols_def
    by (simp add: dict_get_def running_cells_def td_PTime microsec_trunc_Timedelta
        del: microsec_trunc.simps)
  then show ?thesis by blast
qed

lemma example_running_body:
  "prep_tab_running example_js example_jobs (\<lambda>k. t)
     = Inr (tr (map (dict_get (running_cells example_js example_jobs t example_running))
                  header_cols))"
  by (simp add: prep_tab_running_eq enumerate_eq_zip example_jobs_def example_root_def)

lemma example_self:
  "example_jobs\<lparr>base_path := get_base_path example_jobs example_request\<rparr> = example_jobs"
  by (simp add: example_jobs_def example_request_def get_base_path_def getHeader_def)

lemma one_second: "str_timedelta 1000000 = ''0:00:01''"
  by code_simp

lemma two_seconds: "str_timedelta 2000000 = ''0:00:02''"
  by code_simp

text \<open>
  Claim C9, as stated, fails: with a job running, two renders of the same data, flags
  and base path at clock readings one second apart return different documents; and a
  render assigns \<open>self.base_path\<close>.
\<close>

theorem render_reads_clock_counterexample:
  "snd (snd (render example_js example_jobs example_request (clock_at 63800000001000000)))
     \<noteq> snd (snd (render example_js example_jobs example_request (clock_at 63800000002000000)))
   \<and> fst (render example_js (example_jobs\<lparr>base_path := []\<rparr>) example_request
             (clock_at 63800000001000000))
     \<noteq> example_jobs\<lparr>base_path := []\<rparr>"
  unfolding clock_at_def
proof (rule conjI)
  obtain p where p: "prep_tab_pending example_jobs = Inr p"
    using prep_tab_pending_succeeds example_well_formed by blast
  obtain f where f: "prep_tab_finished example_js example_jobs = Inr f"
    using prep_tab_finished_succeeds example_well_formed by blast
  from prep_doc_shape [OF p f] obtain X Y where
    doc: "\<And>now r. prep_tab_running example_js example_jobs now = Inr r
            \<Longrightarrow> prep_doc example_js example_jobs now = Inr (X @ r @ Y)"
    by blast
  from running_row_shape [of example_js example_jobs example_running] obtain A B where
    row: "\<And>t. tr (map (dict_get (running_cells example_js example_jobs t example_running))
                     header_cols)
       = A @ str_timedelta (1000000 * ((t - start_time example_running) div 1000000)) @ B"
    by blast
  have d1: "1000000 * ((63800000001000000 - start_time example_running) div 1000000)
      = 1000000"
    by (simp add: example_running_def)
  have d2: "1000000 * ((63800000002000000 - start_time example_running) div 1000000)
      = 2000000"
    by (simp add: example_running_def)
  have r1: "snd (snd (render example_js example_jobs example_request (\<lambda>k. 63800000001000000)))
      = Inr (utf8_encode (X @ (A @ ''0:00:01'' @ B) @ Y))"
    unfolding render_doc example_self
    using doc [OF example_running_body [of 63800000001000000]]
    unfolding row d1 one_second by simp
  have r2: "snd (snd (render example_js example_jobs example_request (\<lambda>k. 63800000002000000)))
      = Inr (utf8_encode (X @ (A @ ''0:00:02'' @ B) @ Y))"
    unfolding render_doc example_self
    using doc [OF example_running_body [of 63800000002000000]]
    unfolding row d2 two_seconds by simp
  have "utf8_encode ''0:00:01'' \<noteq> utf8_encode ''0:00:02''"
    by (simp add: utf8_encode_def utf8_char_def)
  then show "snd (snd (render example_js example_jobs example_request (\<lambda>k. 63800000001000000)))
     \<noteq> snd (snd (render example_js example_jobs example_request (\<lambda>k. 63800000002000000)))"
    unfolding r1 r2 utf8_encode_append by simp
next
  have "base_path (fst (render example_js (example_jobs\<lparr>base_path := []\<rparr>) example_request
             (\<lambda>k. 63800000001000000))) = ''/scrapyd''"
    unfolding render_self
    by (simp add: example_jobs_def example_request_def get_base_path_def getHeader_def)
  then show "fst (render example_js (example_jobs\<lparr>base_path := []\<rparr>) example_request
             (\<lambda>k. 63800000001000000))
     \<noteq> example_jobs\<lparr>base_path := []\<rparr>"
    by auto
qed

text \<open>
  Claim C9, amended.  A render is a function of the source data, the flags, the logs
  directory, the request and the clock: two renders that read the same clock values for
  the running jobs (in particular any two renders when no job is running) give the same
  result.  A render does not consult the value \<open>self.base_path\<close> had before; it changes
  nothing but \<open>self.base_path\<close>, which it sets to the base path of the request, and the
  response headers \<open>Content-Type\<close> and \<open>Content-Length\<close>.
\<close>

theorem render_function_of_inputs_and_clock:
  "((\<forall>k < length (processes (launcher (root self))). now k = now' k) \<longrightarrow>
      render js self txrequest now = render js self txrequest now')
   \<and> render js (self\<lparr>base_path := b\<rparr>) txrequest now = render js self txrequest now
   \<and> fst (render js self txrequest now)
       = self\<lparr>base_path := get_base_path self txrequest\<rparr>
   \<and> received_headers (fst (snd (render js self txrequest now))) = received_headers txrequest
   \<and> (h \<noteq> ''Content-Type'' \<and> h \<noteq> ''Content-Length'' \<longrightarrow>
        response_headers (fst (snd (render js self txrequest now))) h
          = response_headers txrequest h)"
proof (intro conjI impI)
  assume "\<forall>k < length (processes (launcher (root self))). now k = now' k"
  then show "render js self txrequest now = render js self txrequest now'"
    by (rule render_clock)
next
  show "render js (self\<lparr>base_path := b\<rparr>) txrequest now = render js self txrequest now"
    by (rule render_old_base_path)
next
  show "fst (render js self txrequest now)
       = self\<lparr>base_path := get_base_path self txrequest\<rparr>"
    by (rule render_self)
next
  show "received_headers (fst (snd (render js self txrequest now)))
      = received_headers txrequest"
    by (rule render_received_headers)
next
  assume "h \<noteq> ''Content-Type'' \<and> h \<noteq> ''Content-Length''"
  then show "response_headers (fst (snd (render js self txrequest now))) h
          = response_headers txrequest h"
    using render_response_headers by blast
qed

theorem render_function_of_inputs_and_clock_witness:
  "render example_js example_jobs example_request
       (\<lambda>k. if k = 0 then 63800000001000000 else 0)
     = render example_js example_jobs example_request (\<lambda>k. 63800000001000000)
   \<and> response_headers (fst (snd (render example_js example_jobs example_request
         (\<lambda>k. 63800000001000000)))) ''Server'' = None"
proof -
  have same: "\<forall>k < length (processes (launcher (root example_jobs))).
      (if k = 0 then 63800000001000000 else 0) = (63800000001000000 :: int)"
    by (simp add: example_jobs_def example_root_def)
  have other: "''Server'' \<noteq> ''Content-Type'' \<and> ''Server'' \<noteq> ''Content-Length''"
    by simp
  have none: "response_headers example_request ''Server'' = None"
    by (simp add: example_request_def)
  note r = render_function_of_inputs_and_clock
    [where self = example_jobs and js = example_js and txrequest = example_request]
  have "render example_js example_jobs example_request
       (\<lambda>k. if k = 0 then 63800000001000000 else 0)
     = render example_js example_jobs example_request (\<lambda>k. 63800000001000000)"
    using r [where now = "\<lambda>k. if k = 0 then 63800000001000000 else 0"
        and now' = "\<lambda>k. 63800000001000000", THEN conjunct1, THEN mp] same
    by blast
  moreover
  have "response_headers (fst (snd (render example_js example_jobs example_request
         (\<lambda>k. 63800000001000000)))) ''Server'' = None"
    using r [where now = "\<lambda>k. 63800000001000000" and h = "''Server''",
        THEN conjunct2, THEN conjunct2, THEN conjunct2, THEN conjunct2, THEN mp, OF other]
    unfolding none .
  ultimately show ?thesis by (rule conjI)
qed

subsection \<open>Counting elements in the markup\<close>

lemma markup_free_simps [simp]:
  "markup_free []"
  "markup_free (c # s) = (c \<noteq> CHR ''<'' \<and> markup_free s)"
  "markup_free (a @ b) = (markup_free a \<and> markup_free b)"
  by (auto simp: markup_free_def)

lemma count_sub_text:
  "markup_free x \<Longrightarrow> count_sub (CHR ''<'' # r) (x @ y) = count_sub (CHR ''<'' # r) y"
  by (induction x) auto

lemma digit_char_not_lt: "d < 10 \<Longrightarrow> digit_char d \<noteq> CHR ''<''"
proof
  assume d: "d < 10" and eq: "digit_char d = CHR ''<''"
  have "of_char (digit_char d) = (48 + d :: nat)"
    using d by (simp add: digit_char_def)
  with eq show False using d by simp
qed

lemma markup_free_str_nat [simp]: "markup_free (str_nat n)"
proof (induction n rule: str_nat.induct)
  case (1 n)
  show ?case
  proof (cases "n < 10")
    case True
    then show ?thesis
      by (subst str_nat.simps) (simp add: digit_char_not_lt)
  next
    case False
    then have "markup_free (str_nat (n div 10))" by (rule "1.IH")
    with False show ?thesis
      by (subst str_nat.simps) (simp add: digit_char_not_lt)
  qed
qed

lemma markup_free_replicate [simp]: "c \<noteq> CHR ''<'' \<Longrightarrow> markup_free (replicate n c)"
  by (simp add: markup_free_def)

lemma markup_free_str_int [simp]: "markup_free (str_int i)"
  by (simp add: str_int_def del: str_nat.simps)

lemma markup_free_zero_pad [simp]: "markup_free (zero_pad w i)"
  by (simp add: zero_pad_def del: str_nat.simps)

lemma markup_free_str_timedelta [simp]: "markup_free (str_timedelta d)"
  by (simp add: str_timedelta_def Let_def del: str_nat.simps)

lemma markup_free_str_datetime [simp]: "markup_free (str_datetime t)"
  by (simp add: str_datetime_def Let_def split_def del: str_nat.simps)

lemma td_PStr: "td (PStr s) = ''<td>'' @ s @ ''</td>''"
  by (simp add: td_def)

lemma td_time: "td (PTime x) = ''<td>'' @ str_of (PTime x) @ ''</td>''"
  by (simp add: td_def)

lemma markup_free_time [simp]: "markup_free (str_of (PTime x))"
  by (cases x) simp_all

lemma td_opt_int:
  "td (opt_int v) = ''<td>'' @ (case v of None \<Rightarrow> [] | Some i \<Rightarrow> str_int i) @ ''</td>''"
  by (cases v) (simp_all add: td_def opt_int_def)

lemma markup_free_opt [simp]: "markup_free (case v of None \<Rightarrow> [] | Some i \<Rightarrow> str_int i)"
  by (cases v) simp_all

text \<open>The three kinds of row, cell by cell.\<close>

lemma pending_row:
  "tr (map (dict_get [(''Project'', PStr pr), (''Spider'', PStr n), (''Job'', PStr j),
                      (''Cancel'', PStr (cancel_button pr j bp))]) header_cols)
     = ''<tr>'' @ td (PStr pr) @ td (PStr n) @ td (PStr j)
       @ td PNone @ td PNone @ td PNone @ td PNone @ td PNone @ td PNone
       @ td (PStr (cancel_button pr j bp)) @ ''</tr>''"
  by (simp add: tr_def header_cols_def dict_get_def)

lemma running_row:
  "tr (map (dict_get (running_cells js self t p)) header_cols)
     = ''<tr>'' @ td (PStr (project p)) @ td (PStr (spider p)) @ td (PStr (job p))
       @ td (opt_int (pid p))
       @ td (PTime (microsec_trunc (Datetime (start_time p))))
       @ td (PTime (microsec_trunc (Timedelta (t - start_time p))))
       @ td PNone
       @ td (PStr (link (''/'' @ logsdir (root self) @ base_path self @ job_log_url js p)
                     ''Log''))
       @ td (PStr (link (base_path self @ job_items_url js p) ''Items''))
       @ td (PStr (cancel_button (project p) (job p) (base_path self))) @ ''</tr>''"
  by (simp add: tr_def header_cols_def dict_get_def running_cells_def link_def
      del: microsec_trunc.simps)

lemma finished_row:
  "end_time p = Some e \<Longrightarrow>
   \<exists>d. finished_cells js self p = Inr d
     \<and> tr (map (dict_get d) header_cols)
       = ''<tr>'' @ td (PStr (project p)) @ td (PStr (spider p)) @ td (PStr (job p))
         @ td PNone
         @ td (PTime (microsec_trunc (Datetime (start_time p))))
         @ td (PTime (microsec_trunc (Timedelta (e - start_time p))))
         @ td (PTime (microsec_trunc (Datetime e)))
         @ td (PStr (link (''/'' @ logsdir (root self) @ base_path self @ job_log_url js p)
                       ''Log''))
         @ td (PStr (link (base_path self @ job_items_url js p) ''Items''))
         @ td PNone @ ''</tr>''"
  by (simp add: tr_def header_cols_def dict_get_def finished_cells_def link_def
      del: microsec_trunc.simps)

text \<open>
  Elements in a row whose texts are free of markup, in front of any text \<open>y\<close>: ten
  \<open>td\<close>, one \<open>tr\<close>, and no element whose name starts with \<open>t\<close> and another letter than
  \<open>d\<close> or \<open>r\<close> (no \<open>tbody\<close>, no \<open>th\<close>).
\<close>

lemma pending_row_td:
  assumes "markup_free pr" "markup_free n" "markup_free j" "markup_free bp"
  shows "count_sub ''<td>''
           (tr (map (dict_get [(''Project'', PStr pr), (''Spider'', PStr n), (''Job'', PStr j),
                               (''Cancel'', PStr (cancel_button pr j bp))]) header_cols) @ y)
         = 10 + count_sub ''<td>'' y"
  unfolding pending_row using assms
  by (simp add: td_PStr td_None cancel_button_def count_sub_text)

lemma pending_row_tr:
  assumes "markup_free pr" "markup_free n" "markup_free j" "markup_free bp"
  shows "count_sub ''<tr>''
           (tr (map (dict_get [(''Project'', PStr pr), (''Spider'', PStr n), (''Job'', PStr j),
                               (''Cancel'', PStr (cancel_button pr j bp))]) header_cols) @ y)
         = 1 + count_sub ''<tr>'' y"
  unfolding pending_row using assms
  by (simp add: td_PStr td_None cancel_button_def count_sub_text)

lemma pending_row_other:
  assumes "markup_free pr" "markup_free n" "markup_free j" "markup_free bp"
    and "c \<noteq> CHR ''d''" "c \<noteq> CHR ''r''"
  shows "count_sub (CHR ''<'' # CHR ''t'' # c # r)
           (tr (map (dict_get [(''Project'', PStr pr), (''Spider'', PStr n), (''Job'', PStr j),
                               (''Cancel'', PStr (cancel_button pr j bp))]) header_cols) @ y)
         = count_sub (CHR ''<'' # CHR ''t'' # c # r) y"
  unfolding pending_row using assms
  by (simp add: td_PStr td_None cancel_button_def count_sub_text)

lemma running_row_td:
  assumes "process_plain js p" "markup_free (base_path self)" "markup_free (logsdir (root self))"
  shows "count_sub ''<td>'' (tr (map (dict_get (running_cells js self t p)) header_cols) @ y)
         = 10 + count_sub ''<td>'' y"
  unfolding running_row using assms
  by (simp add: process_plain_def td_PStr td_None td_time td_opt_int cancel_button_def link_def
      count_sub_text del: microsec_trunc.simps str_of.simps)

lemma running_row_tr:
  assumes "process_plain js p" "markup_free (base_path self)" "markup_free (logsdir (root self))"
  shows "count_sub ''<tr>'' (tr (map (dict_get (running_cells js self t p)) header_cols) @ y)
         = 1 + count_sub ''<tr>'' y"
  unfolding running_row using assms
  by (simp add: process_plain_def td_PStr td_None td_time td_opt_int cancel_button_def link_def
      count_sub_text del: microsec_trunc.simps str_of.simps)

lemma running_row_other:
  assumes "process_plain js p" "markup_free (base_path self)" "markup_free (logsdir (root self))"
    and "c \<noteq> CHR ''d''" "c \<noteq> CHR ''r''"
  shows "count_sub (CHR ''<'' # CHR ''t'' # c # r)
           (tr (map (dict_get (running_cells js self t p)) header_cols) @ y)
         = count_sub (CHR ''<'' # CHR ''t'' # c # r) y"
  unfolding running_row using assms
  by (simp add: process_plain_def td_PStr td_None td_time td_opt_int cancel_button_def link_def
      count_sub_text del: microsec_trunc.simps str_of.simps)

lemma finished_cells_Inr:
  assumes "finished_cells js self p = Inr d"
  shows "\<exists>e. end_time p = Some e
     \<and> tr (map (dict_get d) header_cols)
       = ''<tr>'' @ td (PStr (project p)) @ td (PStr (spider p)) @ td (PStr (job p))
         @ td PNone
         @ td (PTime (microsec_trunc (Datetime (start_time p))))
         @ td (PTime (microsec_trunc (Timedelta (e - start_time p))))
         @ td (PTime (microsec_trunc (Datetime e)))
         @ td (PStr (link (''/'' @ logsdir (root self) @ base_path self @ job_log_url js p)
                       ''Log''))
         @ td (PStr (link (base_path self @ job_items_url js p) ''Items''))
         @ td PNone @ ''</tr>''"
proof -
  from assms obtain e where e: "end_time p = Some e"
    by (cases "end_time p") (simp_all add: finished_cells_def)
  from finished_row [OF e, of js self] assms show ?thesis
    using e by auto
qed

lemma finished_row_td:
  assumes "process_plain js p" "markup_free (base_path self)" "markup_free (logsdir (root self))"
    and "finished_cells js self p = Inr d"
  shows "count_sub ''<td>'' (tr (map (dict_get d) header_cols) @ y) = 10 + count_sub ''<td>'' y"
proof -
  from finished_cells_Inr [OF assms(4)] obtain e where
    row: "tr (map (dict_get d) header_cols)
       = ''<tr>'' @ td (PStr (project p)) @ td (PStr (spider p)) @ td (PStr (job p))
         @ td PNone
         @ td (PTime (microsec_trunc (Datetime (start_time p))))
         @ td (PTime (microsec_trunc (Timedelta (e - start_time p))))
         @ td (PTime (microsec_trunc (Datetime e)))
         @ td (PStr (link (''/'' @ logsdir (root self) @ base_path self @ job_log_url js p)
                       ''Log''))
         @ td (PStr (link (base_path self @ job_items_url js p) ''Items''))
         @ td PNone @ ''</tr>''"
    by blast
  show ?thesis
    unfolding row using assms(1-3)
    by (simp add: process_plain_def td_PStr td_None td_time link_def count_sub_text
        del: microsec_trunc.simps str_of.simps)
qed

lemma finished_row_tr:
  assumes "process_plain js p" "markup_free (base_path self)" "markup_free (logsdir (root self))"
    and "finished_cells js self p = Inr d"
  shows "count_sub ''<tr>'' (tr (map (dict_get d) header_cols) @ y) = 1 + count_sub ''<tr>'' y"
proof -
  from finished_cells_Inr [OF assms(4)] obtain e where
    row: "tr (map (dict_get d) header_cols)
       = ''<tr>'' @ td (PStr (project p)) @ td (PStr (spider p)) @ td (PStr (job p))
         @ td PNone
         @ td (PTime (microsec_trunc (Datetime (start_time p))))
         @ td (PTime (microsec_trunc (Timedelta (e - start_time p))))
         @ td (PTime (microsec_trunc (Datetime e)))
         @ td (PStr (link (''/'' @ logsdir (root self) @ base_path self @ job_log_url js p)
                       ''Log''))
         @ td (PStr (link (base_path self @ job_items_url js p) ''Items''))
         @ td PNone @ ''</tr>''"
    by blast
  show ?thesis
    unfolding row using assms(1-3)
    by (simp add: process_plain_def td_PStr td_None td_time link_def count_sub_text
        del: microsec_trunc.simps str_of.simps)
qed

lemma finished_row_other:
  assumes "process_plain js p" "markup_free (base_path self)" "markup_free (logsdir (root self))"
    and "finished_cells js self p = Inr d"
    and "c \<noteq> CHR ''d''" "c \<noteq> CHR ''r''"
  shows "count_sub (CHR ''<'' # CHR ''t'' # c # r) (tr (map (dict_get d) header_cols) @ y)
         = count_sub (CHR ''<'' # CHR ''t'' # c # r) y"
proof -
  from finished_cells_Inr [OF assms(4)] obtain e where
    row: "tr (map (dict_get d) header_cols)
       = ''<tr>'' @ td (PStr (project p)) @ td (PStr (spider p)) @ td (PStr (job p))
         @ td PNone
         @ td (PTime (microsec_trunc (Datetime (start_time p))))
         @ td (PTime (microsec_trunc (Timedelta (e - start_time p))))
         @ td (PTime (microsec_trunc (Datetime e)))
         @ td (PStr (link (''/'' @ logsdir (root self) @ base_path self @ job_log_url js p)
                       ''Log''))
         @ td (PStr (link (base_path self @ job_items_url js p) ''Items''))
         @ td PNone @ ''</tr>''"
    by blast
  show ?thesis
    unfolding row using assms(1-3,5,6)
    by (simp add: process_plain_def td_PStr td_None td_time link_def count_sub_text
        del: microsec_trunc.simps str_of.simps)
qed

lemma map_err_set:
  "map_err f xs = Inr ys \<Longrightarrow> y \<in> set ys \<Longrightarrow> \<exists>x \<in> set xs. f x = Inr y"
proof (induction xs arbitrary: ys)
  case Nil
  then show ?case by simp
next
  case (Cons x xs)
  then show ?case by (auto simp: bind_err_eq_Inr)
qed

lemma enumerate_snd:
  assumes "x \<in> set (enumerate n ys)"
  shows "snd x \<in> set ys"
proof -
  from assms have "fst x - n < length ys" and "ys ! (fst x - n) = snd x"
    by (auto simp: in_set_enumerate_eq)
  then show ?thesis
    by (metis nth_mem)
qed

lemma count_sub_join:
  assumes "\<And>x y. x \<in> set xs \<Longrightarrow>
      count_sub (CHR ''<'' # r) (f x @ y) = k + count_sub (CHR ''<'' # r) y"
  shows "count_sub (CHR ''<'' # r) (join ''\<newline>'' (map f xs) @ y)
         = k * length xs + count_sub (CHR ''<'' # r) y"
  using assms
proof (induction xs)
  case Nil
  show ?case by simp
next
  case (Cons x xs)
  show ?case
  proof (cases xs)
    case Nil
    with Cons.prems show ?thesis by simp
  next
    case (Cons x' xs')
    have "count_sub (CHR ''<'' # r) (join ''\<newline>'' (map f xs) @ y)
         = k * length xs + count_sub (CHR ''<'' # r) y"
      using Cons.IH Cons.prems by simp
    with Cons Cons.prems show ?thesis by simp
  qed
qed

text \<open>
  The three bodies of a table with plain inputs, for an element that every row holds
  \<open>k\<close> times.
\<close>

lemma pending_body_count:
  assumes plain: "inputs_plain js self"
    and body: "prep_tab_pending self = Inr b"
    and row: "\<And>pr n j y. markup_free pr \<Longrightarrow> markup_free n \<Longrightarrow> markup_free j \<Longrightarrow>
      count_sub (CHR ''<'' # r)
        (tr (map (dict_get [(''Project'', PStr pr), (''Spider'', PStr n), (''Job'', PStr j),
                            (''Cancel'', PStr (cancel_button pr j (base_path self)))])
               header_cols) @ y)
      = k + count_sub (CHR ''<'' # r) y"
  shows "count_sub (CHR ''<'' # r) (b @ y)
         = k * length (pending_jobs self) + count_sub (CHR ''<'' # r) y"
proof -
  from body obtain ds where
    ds: "map_err (\<lambda>x. pending_cells self (fst x) (snd x)) (pending_jobs self) = Inr ds"
    and b: "b = join ''\<newline>'' (map (\<lambda>d. tr (map (dict_get d) header_cols)) ds)"
    unfolding prep_tab_pending_eq bind_err_eq_Inr by auto
  have "count_sub (CHR ''<'' # r) (tr (map (dict_get d) header_cols) @ z)
      = k + count_sub (CHR ''<'' # r) z" if "d \<in> set ds" for d z
  proof -
    from map_err_set [OF ds that] obtain x where
      x: "x \<in> set (pending_jobs self)" and d: "pending_cells self (fst x) (snd x) = Inr d"
      by blast
    from plain x have "message_plain (fst x) (snd x)"
      by (simp add: inputs_plain_def list_all_iff)
    then obtain n j where m: "snd x ''name'' = Some n" "snd x ''_job'' = Some j"
      and free: "markup_free (fst x)" "markup_free n" "markup_free j"
      by (auto simp: message_plain_def split: option.splits)
    from d pending_cells_Inr [OF m, of self "fst x"]
    have "d = [(''Project'', PStr (fst x)), (''Spider'', PStr n), (''Job'', PStr j),
               (''Cancel'', PStr (cancel_button (fst x) j (base_path self)))]"
      by simp
    then show ?thesis
      using row [OF free] by simp
  qed
  from count_sub_join [of ds r "\<lambda>d. tr (map (dict_get d) header_cols)" k y, OF this]
  show ?thesis
    unfolding b using map_err_length [OF ds] by simp
qed

lemma running_body_count:
  assumes plain: "inputs_plain js self"
    and body: "prep_tab_running js self now = Inr b"
    and row: "\<And>p t y. process_plain js p \<Longrightarrow>
      count_sub (CHR ''<'' # r) (tr (map (dict_get (running_cells js self t p)) header_cols) @ y)
      = k + count_sub (CHR ''<'' # r) y"
  shows "count_sub (CHR ''<'' # r) (b @ y)
         = k * length (processes (launcher (root self))) + count_sub (CHR ''<'' # r) y"
proof -
  let ?xs = "enumerate 0 (map snd (processes (launcher (root self))))"
  let ?f = "\<lambda>x. tr (map (dict_get (running_cells js self (now (fst x)) (snd x))) header_cols)"
  from body have b: "b = join ''\<newline>'' (map ?f ?xs)"
    unfolding prep_tab_running_eq by simp
  have "count_sub (CHR ''<'' # r) (?f x @ z) = k + count_sub (CHR ''<'' # r) z"
    if "x \<in> set ?xs" for x z
  proof -
    from that have "snd x \<in> set (map snd (processes (launcher (root self))))"
      by (rule enumerate_snd)
    with plain have "process_plain js (snd x)"
      by (auto simp: inputs_plain_def list_all_iff)
    then show ?thesis by (rule row)
  qed
  from count_sub_join [of ?xs r ?f k y, OF this]
  show ?thesis
    unfolding b by simp
qed

lemma finished_body_count:
  assumes plain: "inputs_plain js self"
    and body: "prep_tab_finished js self = Inr b"
    and row: "\<And>p d y. process_plain js p \<Longrightarrow> finished_cells js self p = Inr d \<Longrightarrow>
      count_sub (CHR ''<'' # r) (tr (map (dict_get d) header_cols) @ y)
      = k + count_sub (CHR ''<'' # r) y"
  shows "count_sub (CHR ''<'' # r) (b @ y)
         = k * length (finished (launcher (root self))) + count_sub (CHR ''<'' # r) y"
proof -
  from body obtain ds where
    ds: "map_err (finished_cells js self) (finished (launcher (root self))) = Inr ds"
    and b: "b = join ''\<newline>'' (map (\<lambda>d. tr (map (dict_get d) header_cols)) ds)"
    unfolding prep_tab_finished_eq bind_err_eq_Inr by auto
  have "count_sub (CHR ''<'' # r) (tr (map (dict_get d) header_cols) @ z)
      = k + count_sub (CHR ''<'' # r) z" if "d \<in> set ds" for d z
  proof -
    from map_err_set [OF ds that] obtain p where
      p: "p \<in> set (finished (launcher (root self)))" and d: "finished_cells js self p = Inr d"
      by blast
    from plain p have "process_plain js p"
      by (simp add: inputs_plain_def list_all_iff)
    then show ?thesis using d by (rule row)
  qed
  from count_sub_join [of ds r "\<lambda>d. tr (map (dict_get d) header_cols)" k y, OF this]
  show ?thesis
    unfolding b using map_err_length [OF ds] by simp
qed

lemma plain_well_formed:
  assumes "inputs_plain js self"
  shows "\<forall>x \<in> set (pending_jobs self). snd x ''name'' \<noteq> None \<and> snd x ''_job'' \<noteq> None"
    and "\<forall>p \<in> set (finished (launcher (root self))). end_time p \<noteq> None"
  using assms
  by (auto simp: inputs_plain_def list_all_iff message_plain_def split: option.splits)

lemma header_row_counts:
  "count_sub ''<td>'' (tr (map PStr header_cols) @ y) = 10 + count_sub ''<td>'' y"
  "count_sub ''<tr>'' (tr (map PStr header_cols) @ y) = 1 + count_sub ''<tr>'' y"
  "count_sub ''<tbody>'' (tr (map PStr header_cols) @ y) = count_sub ''<tbody>'' y"
  "count_sub ''<th '' (tr (map PStr header_cols) @ y) = count_sub ''<th '' y"
  by (simp_all add: tr_def header_cols_def td_def)

lemma header_row_tr: "prep_row (Cells_list (map PStr header_cols)) = Inr (tr (map PStr header_cols))"
  by (simp add: prep_row_def tr_def)

lemma plain_table:
  assumes plain: "inputs_plain js self"
  shows \<open>\<exists>t p r f.
      prep_table js self now = Inr t
      \<and> prep_tab_pending self = Inr p
      \<and> prep_tab_running js self now = Inr r
      \<and> prep_tab_finished js self = Inr f
      \<and> t = ''<table id="jobs" border="1">'' @ ''<thead>'' @ tr (map PStr header_cols)
            @ ''</thead>''
            @ spec_section 10 ''Pending'' p
            @ spec_section 10 ''Running'' r
            @ spec_section 10 ''Finished'' f
            @ ''</table>''
      \<and> count_sub ''<td>'' t = 10 * (1 + job_rows self)
      \<and> count_sub ''<tr>'' t = 4 + job_rows self
      \<and> count_sub ''<tbody>'' t = 3
      \<and> count_sub ''<th '' t = 3\<close>
proof -
  from plain have bp: "markup_free (base_path self)" and ld: "markup_free (logsdir (root self))"
    by (simp_all add: inputs_plain_def)
  from prep_table_succeeds [OF plain_well_formed [OF plain]]
  obtain t where t: "prep_table js self now = Inr t"
    by blast
  from prep_table_Inr [OF t] obtain head p r f where
    head: "prep_row (Cells_list (map PStr header_cols)) = Inr head"
    and p: "prep_tab_pending self = Inr p"
    and r: "prep_tab_running js self now = Inr r"
    and f: "prep_tab_finished js self = Inr f"
    and shape: \<open>t = ''<table id="jobs" border="1">'' @ ''<thead>'' @ head @ ''</thead>''
            @ spec_section 10 ''Pending'' p
            @ spec_section 10 ''Running'' r
            @ spec_section 10 ''Finished'' f
            @ ''</table>''\<close>
    by blast
  from head have head_eq: "head = tr (map PStr header_cols)"
    unfolding header_row_tr by simp
  have p_td: "count_sub ''<td>'' (p @ y) = 10 * length (pending_jobs self) + count_sub ''<td>'' y"
    for y
    by (rule pending_body_count [OF plain p]) (rule pending_row_td [OF _ _ _ bp])
  have p_tr: "count_sub ''<tr>'' (p @ y) = 1 * length (pending_jobs self) + count_sub ''<tr>'' y"
    for y
    by (rule pending_body_count [OF plain p]) (rule pending_row_tr [OF _ _ _ bp])
  have p_tbody: "count_sub ''<tbody>'' (p @ y)
      = 0 * length (pending_jobs self) + count_sub ''<tbody>'' y" for y
    by (rule pending_body_count [OF plain p]) (simp add: pending_row_other bp)
  have p_th: "count_sub ''<th '' (p @ y)
      = 0 * length (pending_jobs self) + count_sub ''<th '' y" for y
    by (rule pending_body_count [OF plain p]) (simp add: pending_row_other bp)
  have r_td: "count_sub ''<td>'' (r @ y)
      = 10 * length (processes (launcher (root self))) + count_sub ''<td>'' y" for y
    by (rule running_body_count [OF plain r]) (rule running_row_td [OF _ bp ld])
  have r_tr: "count_sub ''<tr>'' (r @ y)
      = 1 * length (processes (launcher (root self))) + count_sub ''<tr>'' y" for y
    by (rule running_body_count [OF plain r]) (rule running_row_tr [OF _ bp ld])
  have r_tbody: "count_sub ''<tbody>'' (r @ y)
      = 0 * length (processes (launcher (root self))) + count_sub ''<tbody>'' y" for y
    by (rule running_body_count [OF plain r]) (simp add: running_row_other bp ld)
  have r_th: "count_sub ''<th '' (r @ y)
      = 0 * length (processes (launcher (root self))) + count_sub ''<th '' y" for y
    by (rule running_body_count [OF plain r]) (simp add: running_row_other bp ld)
  have f_td: "count_sub ''<td>'' (f @ y)
      = 10 * length (finished (launcher (root self))) + count_sub ''<td>'' y" for y
    by (rule finished_body_count [OF plain f]) (rule finished_row_td [OF _ bp ld])
  have f_tr: "count_sub ''<tr>'' (f @ y)
      = 1 * length (finished (launcher (root self))) + count_sub ''<tr>'' y" for y
    by (rule finished_body_count [OF plain f]) (rule finished_row_tr [OF _ bp ld])
  have f_tbody: "count_sub ''<tbody>'' (f @ y)
      = 0 * length (finished (launcher (root self))) + count_sub ''<tbody>'' y" for y
    by (rule finished_body_count [OF plain f]) (simp only: add_0, erule (1) finished_row_other [OF _ bp ld], simp_all)
  have f_th: "count_sub ''<th '' (f @ y)
      = 0 * length (finished (launcher (root self))) + count_sub ''<th '' y" for y
    by (rule finished_body_count [OF plain f]) (simp only: add_0, erule (1) finished_row_other [OF _ bp ld], simp_all)
  have c_td: "count_sub ''<td>'' t = 10 * (1 + job_rows self)"
    unfolding shape head_eq spec_section_def str_nat_10
    by (simp add: header_row_counts p_td r_td f_td job_rows_def)
  have c_tr: "count_sub ''<tr>'' t = 4 + job_rows self"
    unfolding shape head_eq spec_section_def str_nat_10
    by (simp add: header_row_counts p_tr r_tr f_tr job_rows_def)
  have c_tbody: "count_sub ''<tbody>'' t = 3"
    unfolding shape head_eq spec_section_def str_nat_10
    by (simp add: header_row_counts p_tbody r_tbody f_tbody)
  have c_th: "count_sub ''<th '' t = 3"
    unfolding shape head_eq spec_section_def str_nat_10
    by (simp add: header_row_counts p_th r_th f_th)
  from t p r f shape [unfolded head_eq] c_td c_tr c_tbody c_th
  show ?thesis by blast
qed

lemma count_in_Inr: "count_in t (Inr s) = Inr (count_sub t s)"
  by (simp add: count_in_def)

lemma markup_name_row:
  "prep_tab_pending markup_name_jobs =
     Inr (tr (map (dict_get [(''Project'', PStr ''default''), (''Spider'', PStr ''a</td><td>b''),
                             (''Job'', PStr ''abc123''),
                             (''Cancel'', PStr (cancel_button ''default'' ''abc123'' []))])
               header_cols))"
  by (simp add: prep_tab_pending_eq pending_jobs_def markup_name_jobs_def pending_cells_def
      getitem_def)

lemma injected_pending:
  "prep_tab_pending injected_jobs =
     Inr (tr (map (dict_get [(''Project'', PStr ''default''), (''Spider'', PStr ''quotes''),
                             (''Job'', PStr injected_job),
                             (''Cancel'', PStr (cancel_button ''default'' injected_job []))])
               header_cols))"
  by (simp add: prep_tab_pending_eq pending_jobs_def injected_jobs_def pending_cells_def
      getitem_def)

lemma injected_running: "prep_tab_running example_js injected_jobs now = Inr []"
  by (simp add: prep_tab_running_eq injected_jobs_def enumerate_eq_zip)

lemma injected_finished: "prep_tab_finished example_js injected_jobs = Inr []"
  by (simp add: prep_tab_finished_eq injected_jobs_def)

lemma shifted_finished_row:
  "prep_tab_finished example_js shifted_jobs =
     Inr (''<tr>'' @ td (PStr ''default'') @ td (PStr ''a</td><td>b'') @ td (PStr ''j0'')
          @ td PNone
          @ td (PTime (microsec_trunc (Datetime 63800000000000000)))
          @ td (PTime (microsec_trunc (Timedelta 90700000)))
          @ td (PTime (microsec_trunc (Datetime 63800000090700000)))
          @ td (PStr (link ''/logs/default/a</td><td>b/j0.log'' ''Log''))
          @ td (PStr (link ''/items/default/a</td><td>b/j0.jl'' ''Items''))
          @ td PNone @ ''</tr>'')"
proof -
  have e: "end_time shifted_finished = Some 63800000090700000"
    by (simp add: shifted_finished_def)
  from finished_row [OF e, of example_js shifted_jobs]
  obtain d where d: "finished_cells example_js shifted_jobs shifted_finished = Inr d"
    and row: "tr (map (dict_get d) header_cols)
      = ''<tr>'' @ td (PStr ''default'') @ td (PStr ''a</td><td>b'') @ td (PStr ''j0'')
          @ td PNone
          @ td (PTime (microsec_trunc (Datetime 63800000000000000)))
          @ td (PTime (microsec_trunc (Timedelta 90700000)))
          @ td (PTime (microsec_trunc (Datetime 63800000090700000)))
          @ td (PStr (link ''/logs/default/a</td><td>b/j0.log'' ''Log''))
          @ td (PStr (link ''/items/default/a</td><td>b/j0.jl'' ''Items''))
          @ td PNone @ ''</tr>''"
    by (auto simp: shifted_finished_def shifted_jobs_def example_js_def
        simp del: microsec_trunc.simps)
  have "prep_tab_finished example_js shifted_jobs = Inr (tr (map (dict_get d) header_cols))"
    using d by (simp add: prep_tab_finished_eq shifted_jobs_def)
  then show ?thesis
    unfolding row .
qed

lemma example_plain: "inputs_plain example_js example_jobs"
  by (simp add: inputs_plain_def message_plain_def process_plain_def pending_jobs_def
      example_jobs_def example_root_def example_message_def example_running_def
      example_finished_def example_js_def)

lemma example_job_rows: "job_rows example_jobs = 3"
  by (simp add: job_rows_def pending_jobs_def example_jobs_def example_root_def)

lemma pending_row_plain:
  assumes "message_plain pr m" and "markup_free (base_path self)"
  shows "\<exists>d. pending_cells self pr m = Inr d
     \<and> count_sub ''<td>'' (tr (map (dict_get d) header_cols)) = 10"
proof -
  from assms(1) obtain n j where m: "m ''name'' = Some n" "m ''_job'' = Some j"
    and free: "markup_free pr" "markup_free n" "markup_free j"
    by (auto simp: message_plain_def split: option.splits)
  from pending_row_td [OF free assms(2), of "[]"]
  have "count_sub ''<td>''
      (tr (map (dict_get [(''Project'', PStr pr), (''Spider'', PStr n), (''Job'', PStr j),
                          (''Cancel'', PStr (cancel_button pr j (base_path self)))])
             header_cols)) = 10"
    by simp
  with pending_cells_Inr [OF m, of self pr] show ?thesis
    by simp
qed

lemma running_row_plain:
  assumes "process_plain js p" "markup_free (base_path self)" "markup_free (logsdir (root self))"
  shows "count_sub ''<td>'' (tr (map (dict_get (running_cells js self t p)) header_cols)) = 10"
  using running_row_td [OF assms, of t "[]"] by simp

lemma finished_row_plain:
  assumes "process_plain js p" "markup_free (base_path self)" "markup_free (logsdir (root self))"
    and "finished_cells js self p = Inr d"
  shows "count_sub ''<td>'' (tr (map (dict_get d) header_cols)) = 10"
  using finished_row_td [OF assms, of "[]"] by simp

lemma header_row_ten: "count_sub ''<td>'' (tr (map PStr header_cols)) = 10"
  using header_row_counts(1) [of "[]"] by simp

lemma pending_row_Inr:
  assumes "m ''name'' = Some n" and "m ''_job'' = Some j"
  shows "\<exists>d. pending_cells self pr m = Inr d
     \<and> tr (map (dict_get d) header_cols)
       = ''<tr>'' @ td (PStr pr) @ td (PStr n) @ td (PStr j)
         @ td PNone @ td PNone @ td PNone @ td PNone @ td PNone @ td PNone
         @ td (PStr (cancel_button pr j (base_path self))) @ ''</tr>''"
  using pending_cells_Inr [OF assms, of self pr] pending_row by simp

subsection \<open>Ten cells in every row\<close>




subsection \<open>Three sections\<close>




subsection \<open>Columns, cells and their visibility\<close>




subsection \<open>Blank and populated cells, and the hidden column\<close>



end
